theory Spec2Isabelle
  imports Complex_Main "HOL-Library.Word"
begin

unbundle bit_operations_syntax

section \<open>A model of the ACES EXR save node\<close>

text \<open>
  The node \<open>ACESEXRSaveOCIO\<close> of \<open>aces_exr_save_ocio.py\<close> converts image tensors between
  colour spaces with fixed matrices, resolves an OCIO configuration file (local file,
  download with a disk cache, preset) and hands every converted frame to OpenImageIO.

  Conventions of the model:
  \<^item> a Python \<open>str\<close> is the list of its UTF-8 bytes, so the Cyrillic literals of the source
    are byte lists (each one is given with its transliteration);
  \<^item> samples are real numbers: the arithmetic of NumPy is exact here, the rounding of
    \<open>astype(np.float32)\<close> is a function of the host, and NaN and the infinities are not
    samples;
  \<^item> an array is its shape and its samples in row-major order, and a tensor is an array
    with the attributes \<open>requires_grad\<close> and \<open>dtype\<close>;
  \<^item> an exception is a value of \<open>py_error\<close>; a function that can raise returns
    \<open>py_error + 'a\<close>;
  \<^item> the file system, the network and OpenImageIO are explicit: the files and the trace
    of calls are a state (\<open>world\<close>), the answers of the network and of the imaging library
    are parameters (\<open>host\<close>);
  \<^item> \<open>print\<close> is not modelled.
\<close>

subsection \<open>Strings\<close>

definition ru_bez_konvertatsii :: string where
  \<comment> \<open>Bez konvertatsii (no conversion)\<close>
  "ru_bez_konvertatsii =
     [CHR 0xD0, CHR 0x91, CHR 0xD0, CHR 0xB5, CHR 0xD0, CHR 0xB7, CHR 0x20, CHR 0xD0,
      CHR 0xBA, CHR 0xD0, CHR 0xBE, CHR 0xD0, CHR 0xBD, CHR 0xD0, CHR 0xB2, CHR 0xD0,
      CHR 0xB5, CHR 0xD1, CHR 0x80, CHR 0xD1, CHR 0x82, CHR 0xD0, CHR 0xB0, CHR 0xD1,
      CHR 0x86, CHR 0xD0, CHR 0xB8, CHR 0xD0, CHR 0xB8]"

definition ru_nedostupna :: string where
  \<comment> \<open>nedostupna (unavailable)\<close>
  "ru_nedostupna =
     [CHR 0xD0, CHR 0xBD, CHR 0xD0, CHR 0xB5, CHR 0xD0, CHR 0xB4, CHR 0xD0, CHR 0xBE,
      CHR 0xD1, CHR 0x81, CHR 0xD1, CHR 0x82, CHR 0xD1, CHR 0x83, CHR 0xD0, CHR 0xBF,
      CHR 0xD0, CHR 0xBD, CHR 0xD0, CHR 0xB0]"

definition ru_OSHIBKA :: string where
  \<comment> \<open>OSHIBKA (ERROR)\<close>
  "ru_OSHIBKA =
     [CHR 0xD0, CHR 0x9E, CHR 0xD0, CHR 0xA8, CHR 0xD0, CHR 0x98, CHR 0xD0, CHR 0x91,
      CHR 0xD0, CHR 0x9A, CHR 0xD0, CHR 0x90]"

definition ru_oshibka :: string where
  \<comment> \<open>Oshibka (Error)\<close>
  "ru_oshibka =
     [CHR 0xD0, CHR 0x9E, CHR 0xD1, CHR 0x88, CHR 0xD0, CHR 0xB8, CHR 0xD0, CHR 0xB1,
      CHR 0xD0, CHR 0xBA, CHR 0xD0, CHR 0xB0]"

definition ru_nevozmozhno_sozdat :: string where
  \<comment> \<open>Nevozmozhno sozdat' (cannot create)\<close>
  "ru_nevozmozhno_sozdat =
     [CHR 0xD0, CHR 0x9D, CHR 0xD0, CHR 0xB5, CHR 0xD0, CHR 0xB2, CHR 0xD0, CHR 0xBE,
      CHR 0xD0, CHR 0xB7, CHR 0xD0, CHR 0xBC, CHR 0xD0, CHR 0xBE, CHR 0xD0, CHR 0xB6,
      CHR 0xD0, CHR 0xBD, CHR 0xD0, CHR 0xBE, CHR 0x20, CHR 0xD1, CHR 0x81, CHR 0xD0,
      CHR 0xBE, CHR 0xD0, CHR 0xB7, CHR 0xD0, CHR 0xB4, CHR 0xD0, CHR 0xB0, CHR 0xD1,
      CHR 0x82, CHR 0xD1, CHR 0x8C]"

definition ru_dlya :: string where
  \<comment> \<open>dlya (for)\<close>
  "ru_dlya =
     [CHR 0xD0, CHR 0xB4, CHR 0xD0, CHR 0xBB, CHR 0xD1, CHR 0x8F]"

definition ru_nevozmozhno_otkryt :: string where
  \<comment> \<open>Nevozmozhno otkryt' (cannot open)\<close>
  "ru_nevozmozhno_otkryt =
     [CHR 0xD0, CHR 0x9D, CHR 0xD0, CHR 0xB5, CHR 0xD0, CHR 0xB2, CHR 0xD0, CHR 0xBE,
      CHR 0xD0, CHR 0xB7, CHR 0xD0, CHR 0xBC, CHR 0xD0, CHR 0xBE, CHR 0xD0, CHR 0xB6,
      CHR 0xD0, CHR 0xBD, CHR 0xD0, CHR 0xBE, CHR 0x20, CHR 0xD0, CHR 0xBE, CHR 0xD1,
      CHR 0x82, CHR 0xD0, CHR 0xBA, CHR 0xD1, CHR 0x80, CHR 0xD1, CHR 0x8B, CHR 0xD1,
      CHR 0x82, CHR 0xD1, CHR 0x8C]"

definition ru_dlya_zapisi :: string where
  \<comment> \<open>dlya zapisi (for writing)\<close>
  "ru_dlya_zapisi =
     [CHR 0xD0, CHR 0xB4, CHR 0xD0, CHR 0xBB, CHR 0xD1, CHR 0x8F, CHR 0x20, CHR 0xD0,
      CHR 0xB7, CHR 0xD0, CHR 0xB0, CHR 0xD0, CHR 0xBF, CHR 0xD0, CHR 0xB8, CHR 0xD1,
      CHR 0x81, CHR 0xD0, CHR 0xB8]"

definition ru_oshibka_zapisi :: string where
  \<comment> \<open>Oshibka zapisi (write error)\<close>
  "ru_oshibka_zapisi =
     [CHR 0xD0, CHR 0x9E, CHR 0xD1, CHR 0x88, CHR 0xD0, CHR 0xB8, CHR 0xD0, CHR 0xB1,
      CHR 0xD0, CHR 0xBA, CHR 0xD0, CHR 0xB0, CHR 0x20, CHR 0xD0, CHR 0xB7, CHR 0xD0,
      CHR 0xB0, CHR 0xD0, CHR 0xBF, CHR 0xD0, CHR 0xB8, CHR 0xD1, CHR 0x81, CHR 0xD0,
      CHR 0xB8]"

definition ru_dannykh :: string where
  \<comment> \<open>dannykh (of the data)\<close>
  "ru_dannykh =
     [CHR 0xD0, CHR 0xB4, CHR 0xD0, CHR 0xB0, CHR 0xD0, CHR 0xBD, CHR 0xD0, CHR 0xBD,
      CHR 0xD1, CHR 0x8B, CHR 0xD1, CHR 0x85]"

definition cross_mark :: string where
  \<comment> \<open>the cross-mark glyph U+274C\<close>
  "cross_mark =
     [CHR 0xE2, CHR 0x9D, CHR 0x8C]"

definition ru_nedostupen_ustanovite :: string where
  \<comment> \<open>nedostupen! Ustanovite: (unavailable! Install:)\<close>
  "ru_nedostupen_ustanovite =
     [CHR 0xD0, CHR 0xBD, CHR 0xD0, CHR 0xB5, CHR 0xD0, CHR 0xB4, CHR 0xD0, CHR 0xBE,
      CHR 0xD1, CHR 0x81, CHR 0xD1, CHR 0x82, CHR 0xD1, CHR 0x83, CHR 0xD0, CHR 0xBF,
      CHR 0xD0, CHR 0xB5, CHR 0xD0, CHR 0xBD, CHR 0x21, CHR 0x20, CHR 0xD0, CHR 0xA3,
      CHR 0xD1, CHR 0x81, CHR 0xD1, CHR 0x82, CHR 0xD0, CHR 0xB0, CHR 0xD0, CHR 0xBD,
      CHR 0xD0, CHR 0xBE, CHR 0xD0, CHR 0xB2, CHR 0xD0, CHR 0xB8, CHR 0xD1, CHR 0x82,
      CHR 0xD0, CHR 0xB5, CHR 0x3A]"

definition ru_ili :: string where
  \<comment> \<open>ili (or)\<close>
  "ru_ili =
     [CHR 0xD0, CHR 0xB8, CHR 0xD0, CHR 0xBB, CHR 0xD0, CHR 0xB8]"

text \<open>\<open>str(n)\<close> for a natural number, and the format \<open>{i:05d}\<close>.\<close>

definition digit_char :: "nat \<Rightarrow> char" where
  "digit_char n = ''0123456789'' ! (n mod 10)"

function str_nat :: "nat \<Rightarrow> string" where
  "str_nat n = (if n < 10 then [digit_char n] else str_nat (n div 10) @ [digit_char n])"
  by pat_completeness auto
termination
  by (relation "measure id") auto

declare str_nat.simps [simp del]

definition fmt_05d :: "nat \<Rightarrow> string" where
  "fmt_05d i = replicate (5 - length (str_nat i)) CHR ''0'' @ str_nat i"

text \<open>\<open>sep.join(xs)\<close>.\<close>

fun py_join :: "string \<Rightarrow> string list \<Rightarrow> string" where
  "py_join sep [] = []"
| "py_join sep [x] = x"
| "py_join sep (x # y # ys) = x @ sep @ py_join sep (y # ys)"

definition newline :: string where
  "newline = [CHR 0x0A]"

text \<open>\<open>s.lower()\<close> on the ASCII letters, and \<open>s.replace(' ', '_')\<close>.\<close>

definition lower_char :: "char \<Rightarrow> char" where
  "lower_char c =
     (let n = (of_char c :: nat) in if 65 \<le> n \<and> n \<le> 90 then char_of (n + 32) else c)"

definition py_lower :: "string \<Rightarrow> string" where
  "py_lower s = map lower_char s"

definition replace_space :: "string \<Rightarrow> string" where
  "replace_space s = map (\<lambda>c. if c = CHR '' '' then CHR ''_'' else c) s"

text \<open>\<open>os.path.join(a, b)\<close> of \<open>posixpath\<close>.\<close>

definition path_join :: "string \<Rightarrow> string \<Rightarrow> string" where
  "path_join a b =
     (if take 1 b = ''/'' then b
      else if a = [] \<or> last a = CHR ''/'' then a @ b
      else a @ ''/'' @ b)"

subsection \<open>\<open>hashlib.md5\<close>\<close>

text \<open>
  The library function \<open>hashlib.md5(bytes).hexdigest()\<close>, after RFC 1321: padding to a
  multiple of 64 bytes, 64 steps on each block of sixteen little-endian 32-bit words, and
  the four state words printed as 32 lower-case hexadecimal digits.
\<close>

type_synonym u32 = "32 word"

type_synonym md5_state = "u32 \<times> u32 \<times> u32 \<times> u32"

definition md5_K :: "u32 list" where
  "md5_K =
    [0xd76aa478, 0xe8c7b756, 0x242070db, 0xc1bdceee, 0xf57c0faf, 0x4787c62a, 0xa8304613,
     0xfd469501, 0x698098d8, 0x8b44f7af, 0xffff5bb1, 0x895cd7be, 0x6b901122, 0xfd987193,
     0xa679438e, 0x49b40821, 0xf61e2562, 0xc040b340, 0x265e5a51, 0xe9b6c7aa, 0xd62f105d,
     0x02441453, 0xd8a1e681, 0xe7d3fbc8, 0x21e1cde6, 0xc33707d6, 0xf4d50d87, 0x455a14ed,
     0xa9e3e905, 0xfcefa3f8, 0x676f02d9, 0x8d2a4c8a, 0xfffa3942, 0x8771f681, 0x6d9d6122,
     0xfde5380c, 0xa4beea44, 0x4bdecfa9, 0xf6bb4b60, 0xbebfbc70, 0x289b7ec6, 0xeaa127fa,
     0xd4ef3085, 0x04881d05, 0xd9d4d039, 0xe6db99e5, 0x1fa27cf8, 0xc4ac5665, 0xf4292244,
     0x432aff97, 0xab9423a7, 0xfc93a039, 0x655b59c3, 0x8f0ccc92, 0xffeff47d, 0x85845dd1,
     0x6fa87e4f, 0xfe2ce6e0, 0xa3014314, 0x4e0811a1, 0xf7537e82, 0xbd3af235, 0x2ad7d2bb,
     0xeb86d391]"

definition md5_S :: "nat list" where
  "md5_S =
    [7, 12, 17, 22, 7, 12, 17, 22, 7, 12, 17, 22, 7, 12, 17, 22,
     5, 9, 14, 20, 5, 9, 14, 20, 5, 9, 14, 20, 5, 9, 14, 20,
     4, 11, 16, 23, 4, 11, 16, 23, 4, 11, 16, 23, 4, 11, 16, 23,
     6, 10, 15, 21, 6, 10, 15, 21, 6, 10, 15, 21, 6, 10, 15, 21]"

definition rotl32 :: "u32 \<Rightarrow> nat \<Rightarrow> u32" where
  "rotl32 x n = push_bit n x OR drop_bit (32 - n) x"

definition md5_step :: "u32 list \<Rightarrow> nat \<Rightarrow> md5_state \<Rightarrow> md5_state" where
  "md5_step m i st =
     (case st of (a, b, c, d) \<Rightarrow>
        let (f, g) =
              (if i < 16 then ((b AND c) OR (NOT b AND d), i)
               else if i < 32 then ((d AND b) OR (NOT d AND c), (5 * i + 1) mod 16)
               else if i < 48 then (b XOR c XOR d, (3 * i + 5) mod 16)
               else (c XOR (b OR NOT d), (7 * i) mod 16));
            f' = f + a + md5_K ! i + m ! g
        in (d, b + rotl32 f' (md5_S ! i), b, c))"

definition md5_block :: "md5_state \<Rightarrow> u32 list \<Rightarrow> md5_state" where
  "md5_block st m =
     (case st of (a0, b0, c0, d0) \<Rightarrow>
        case fold (md5_step m) [0..<64] st of (a, b, c, d) \<Rightarrow>
          (a0 + a, b0 + b, c0 + c, d0 + d))"

text \<open>Cutting a list into rows of \<open>n\<close> elements (the last one may be shorter).\<close>

function chunk :: "nat \<Rightarrow> 'a list \<Rightarrow> 'a list list" where
  "chunk n xs = (if n = 0 \<or> xs = [] then [] else take n xs # chunk n (drop n xs))"
  by pat_completeness auto
termination
  by (relation "measure (\<lambda>(n, xs). length xs)") auto

declare chunk.simps [simp del]

definition le_word :: "8 word list \<Rightarrow> u32" where
  "le_word bs = foldr (\<lambda>b acc. ucast b OR push_bit 8 acc) bs 0"

definition le_bytes :: "nat \<Rightarrow> 'a::len word \<Rightarrow> 8 word list" where
  "le_bytes k v = map (\<lambda>i. ucast (drop_bit (8 * i) v)) [0..<k]"

definition md5_pad :: "8 word list \<Rightarrow> 8 word list" where
  "md5_pad bs =
     bs @ [128] @ replicate ((119 - length bs mod 64) mod 64) 0
        @ le_bytes 8 (8 * of_nat (length bs) :: 64 word)"

definition md5_digest :: "8 word list \<Rightarrow> md5_state" where
  "md5_digest bs =
     fold (\<lambda>blk st. md5_block st (map le_word (chunk 4 blk))) (chunk 64 (md5_pad bs))
       (0x67452301, 0xefcdab89, 0x98badcfe, 0x10325476)"

definition hex_digit :: "nat \<Rightarrow> char" where
  "hex_digit n = ''0123456789abcdef'' ! (n mod 16)"

definition hex_byte :: "8 word \<Rightarrow> string" where
  "hex_byte b = [hex_digit (unat (drop_bit 4 b)), hex_digit (unat (b AND 15))]"

definition md5_hexdigest :: "string \<Rightarrow> string" where
  "md5_hexdigest s =
     (case md5_digest (map of_char s) of (a, b, c, d) \<Rightarrow>
        concat (map hex_byte (concat (map (le_bytes 4) [a, b, c, d]))))"

subsection \<open>Exceptions\<close>

datatype py_error =
    ValueError string
  | IndexError string
  | RuntimeError string
  | TypeError string
  | OtherError string

text \<open>\<open>str(e)\<close>, as the f-string \<open>{e}\<close> prints an exception.\<close>

fun error_text :: "py_error \<Rightarrow> string" where
  "error_text (ValueError m) = m"
| "error_text (IndexError m) = m"
| "error_text (RuntimeError m) = m"
| "error_text (TypeError m) = m"
| "error_text (OtherError m) = m"

subsection \<open>Tensors and arrays\<close>

text \<open>A NumPy array: its shape and its samples in row-major order.\<close>

record ndarray =
  shape :: "nat list"
  data :: "real list"

text \<open>
  A dense torch tensor is an array with two more attributes that decide what
  \<open>tensor.cpu().numpy().astype(np.float32)\<close> does: whether it requires grad, and its
  dtype, which is \<open>float32\<close> itself, another dtype that NumPy has (\<open>float64\<close>, \<open>float16\<close>,
  \<open>uint8\<close>, ...) or a dtype that NumPy lacks (\<open>bfloat16\<close>, ...), given with its name.
\<close>

datatype torch_dtype =
    Float32
  | NumpyDtype string
  | NonNumpyDtype string

record tensor = ndarray +
  requires_grad :: bool
  dtype :: torch_dtype

text \<open>
  \<open>images[i]\<close> for \<open>0 \<le> i\<close>: the \<open>i\<close>-th slice along the first dimension, a view with the
  attributes of the tensor.
\<close>

definition getitem :: "tensor \<Rightarrow> nat \<Rightarrow> py_error + tensor" where
  "getitem t i =
     (case shape t of
        [] \<Rightarrow> Inl (IndexError ''invalid index of a 0-dim tensor'')
      | n # rest \<Rightarrow>
          if i < n
          then Inr (t\<lparr>shape := rest,
                      data := take (prod_list rest) (drop (i * prod_list rest) (data t))\<rparr>)
          else Inl (IndexError (''index '' @ str_nat i @ '' is out of bounds for dimension 0 with size ''
                                 @ str_nat n)))"

text \<open>\<open>tensor.squeeze(0)\<close>: drops the first dimension when its size is 1.\<close>

definition squeeze0 :: "tensor \<Rightarrow> tensor" where
  "squeeze0 t =
     (case shape t of
        [] \<Rightarrow> t
      | n # rest \<Rightarrow> if n = 1 then t\<lparr>shape := rest\<rparr> else t)"

text \<open>
  The exception of \<open>tensor.cpu().numpy()\<close>, if any: torch refuses a tensor that requires
  grad, and then a dtype that NumPy lacks.
\<close>

definition numpy_error :: "tensor \<Rightarrow> py_error option" where
  "numpy_error t =
     (if requires_grad t
      then Some (RuntimeError
             ''Can't call numpy() on Tensor that requires grad. Use tensor.detach().numpy() instead.'')
      else case dtype t of
             NonNumpyDtype name \<Rightarrow> Some (TypeError (''Got unsupported ScalarType '' @ name))
           | _ \<Rightarrow> None)"

text \<open>\<open>np.clip(array, 0.0, None)\<close>: the lower bound only.\<close>

definition clip_low :: "real \<Rightarrow> ndarray \<Rightarrow> ndarray" where
  "clip_low lo a = a\<lparr>data := map (\<lambda>v. max v lo) (data a)\<rparr>"

subsection \<open>Colour conversion\<close>

definition SRGB_TO_ACES2065_MATRIX :: "real list list" where
  "SRGB_TO_ACES2065_MATRIX =
     [[0.4395677, 0.3831666, 0.1772656],
      [0.0897923, 0.8134201, 0.0967876],
      [0.0175439, 0.1115623, 0.8708938]]"

definition ACES2065_TO_ACESCG_MATRIX :: "real list list" where
  "ACES2065_TO_ACESCG_MATRIX =
     [[1.451439316, -0.236510746, -0.214928570],
      [-0.076553773, 1.176229700, -0.099675927],
      [0.008316148, -0.006032449, 0.997716301]]"

text \<open>The sRGB transfer function on one sample, and \<open>np.where\<close> over the whole array.\<close>

definition srgb_to_linear_sample :: "real \<Rightarrow> real" where
  "srgb_to_linear_sample v =
     (if v \<le> 0.04045 then v / 12.92 else ((v + 0.055) / 1.055) powr 2.4)"

definition srgb_to_linear :: "ndarray \<Rightarrow> ndarray" where
  "srgb_to_linear img = img\<lparr>data := map srgb_to_linear_sample (data img)\<rparr>"

text \<open>\<open>np.dot(a, b)\<close> of two matrices given by their rows, and \<open>matrix.T\<close>.\<close>

definition dot_row :: "real list \<Rightarrow> real list \<Rightarrow> real" where
  "dot_row r c = sum_list (map2 (*) r c)"

definition np_dot :: "real list list \<Rightarrow> real list list \<Rightarrow> real list list" where
  "np_dot a b = map (\<lambda>r. map (dot_row r) (transpose b)) a"

definition matrix_T :: "real list list \<Rightarrow> real list list" where
  "matrix_T m = transpose m"

text \<open>
  \<open>image.reshape(-1, 3)\<close> raises \<open>ValueError\<close> unless the number of samples is a multiple
  of 3; the product with the transposed matrix and the reshape back cannot fail.
\<close>

definition matrix_transform :: "ndarray \<Rightarrow> real list list \<Rightarrow> py_error + ndarray" where
  "matrix_transform img matrix =
     (let original_shape = shape img;
          n = prod_list original_shape
      in if n mod 3 \<noteq> 0
         then Inl (ValueError (''cannot reshape array of size '' @ str_nat n @ '' into shape (3)''))
         else
           let flat_image = chunk 3 (data img);
               transformed = np_dot flat_image (matrix_T matrix)
           in Inr \<lparr>shape = original_shape, data = concat transformed\<rparr>)"

definition unsupported_info :: "string \<Rightarrow> string \<Rightarrow> string" where
  "unsupported_info input_cs output_cs =
     ru_bez_konvertatsii @ '' ('' @ input_cs @ '' -> '' @ output_cs @ '' '' @ ru_nedostupna @ '')''"

definition convert_colorspace ::
  "ndarray \<Rightarrow> string \<Rightarrow> string \<Rightarrow> py_error + (ndarray \<times> string)" where
  "convert_colorspace image_array input_cs output_cs =
     (if input_cs = output_cs then Inr (image_array, ru_bez_konvertatsii)
      else if input_cs = ''sRGB'' \<and> output_cs = ''ACES2065-1'' then
        (let linear_image = srgb_to_linear image_array in
         case matrix_transform linear_image SRGB_TO_ACES2065_MATRIX of
           Inl e \<Rightarrow> Inl e
         | Inr result \<Rightarrow> Inr (result, ''Matrix: sRGB -> Linear -> ACES2065-1''))
      else if input_cs = ''ACES2065-1'' \<and> output_cs = ''ACEScg'' then
        (case matrix_transform image_array ACES2065_TO_ACESCG_MATRIX of
           Inl e \<Rightarrow> Inl e
         | Inr result \<Rightarrow> Inr (result, ''Matrix: ACES2065-1 -> ACEScg''))
      else if input_cs = ''sRGB'' \<and> output_cs = ''ACEScg'' then
        (let linear_image = srgb_to_linear image_array in
         case matrix_transform linear_image SRGB_TO_ACES2065_MATRIX of
           Inl e \<Rightarrow> Inl e
         | Inr aces2065 \<Rightarrow>
             (case matrix_transform aces2065 ACES2065_TO_ACESCG_MATRIX of
                Inl e \<Rightarrow> Inl e
              | Inr result \<Rightarrow> Inr (result, ''Matrix: sRGB -> Linear -> ACES2065-1 -> ACEScg'')))
      else if input_cs = ''Linear sRGB'' \<and> output_cs = ''ACES2065-1'' then
        (case matrix_transform image_array SRGB_TO_ACES2065_MATRIX of
           Inl e \<Rightarrow> Inl e
         | Inr result \<Rightarrow> Inr (result, ''Matrix: Linear sRGB -> ACES2065-1''))
      else Inr (image_array, unsupported_info input_cs output_cs))"

subsection \<open>The environment: files, network, imaging library\<close>

text \<open>
  What \<open>urllib\<close> does for a URL: \<open>Request(url)\<close> may reject it before anything is sent,
  \<open>urlopen\<close> may raise, the body may fail to arrive, or the body is read in full.
\<close>

datatype http_outcome =
    BadRequest
  | HTTPError
  | URLError
  | ConnectionFails
  | ReadFails
  | Body string

text \<open>
  What OpenImageIO does with one image: \<open>ImageOutput.create\<close> returns nothing, \<open>open\<close>
  returns false, \<open>write_image\<close> returns false, some call raises, or the image is written.
\<close>

datatype oiio_outcome =
    NoOutput
  | NotOpened
  | NotWritten
  | Raises string
  | Written

datatype oiio_type = HALF | FLOAT

text \<open>
  The host: the directories, the answers of the network and of the imaging library,
  whether \<open>open(path, 'wb')\<close> succeeds, Python's fixed-point format of a float
  (\<open>fmt_fixed h 3 x\<close> is \<open>f"{x:.3f}"\<close>), and the rounding of a number to \<open>float32\<close>.
  \<open>home\<close> is the directory \<open>expanduser\<close> puts for \<open>~\<close>.
\<close>

record host =
  OIIO_AVAILABLE :: bool
  output_dir :: string
  ocio_cache_dir :: string
  home :: string
  urlopen :: "string \<Rightarrow> http_outcome"
  can_create :: "string \<Rightarrow> bool"
  oiio :: "string \<Rightarrow> oiio_type \<Rightarrow> (string \<times> string) list \<Rightarrow> ndarray \<Rightarrow> oiio_outcome"
  fmt_fixed :: "nat \<Rightarrow> real \<Rightarrow> string"
  float32_round :: "real \<Rightarrow> real"

text \<open>
  \<open>astype(np.float32)\<close> on one sample: a \<open>float32\<close> sample stays as it is, a sample of
  another dtype is rounded. Then \<open>tensor_to_numpy\<close>: the call of \<open>numpy()\<close> is outside any
  \<open>try\<close>, so its exception is that of \<open>tensor_to_numpy\<close>.
\<close>

definition astype_float32 :: "host \<Rightarrow> torch_dtype \<Rightarrow> real \<Rightarrow> real" where
  "astype_float32 h dt v = (if dt = Float32 then v else float32_round h v)"

definition tensor_to_numpy :: "host \<Rightarrow> tensor \<Rightarrow> py_error + ndarray" where
  "tensor_to_numpy h tensor =
     (let tensor' = (if length (shape tensor) = 4 then squeeze0 tensor else tensor)
      in case numpy_error tensor' of
           Some e \<Rightarrow> Inl e
         | None \<Rightarrow>
             let array = \<lparr>shape = shape tensor',
                          data = map (astype_float32 h (dtype tensor')) (data tensor')\<rparr>
             in Inr (clip_low 0 array))"

text \<open>
  The state: the configuration files on disk (path to content), the URLs handed to
  \<open>urlopen\<close> so far, and the calls of \<open>save_exr_aces\<close> made by \<open>save_aces_exr\<close> so far
  (file path and pixel array).
\<close>

record world =
  files :: "string \<rightharpoonup> string"
  requests :: "string list"
  exr_calls :: "(string \<times> ndarray) list"

definition path_exists :: "world \<Rightarrow> string \<Rightarrow> bool" where
  "path_exists w p = (files w p \<noteq> None)"

subsection \<open>Resolving the OCIO configuration\<close>

definition cache_filename :: "string \<Rightarrow> string \<Rightarrow> string" where
  "cache_filename url filename_hint =
     (let url_hash = take 8 (md5_hexdigest url)
      in ''ocio_'' @ url_hash @ ''_'' @ filename_hint)"

text \<open>
  Every exception inside \<open>download_ocio_config\<close> is caught and turned into \<open>None\<close>; what
  was written to the disk before the exception stays.
\<close>

definition download_ocio_config ::
  "host \<Rightarrow> world \<Rightarrow> string \<Rightarrow> string \<Rightarrow> string option \<times> world" where
  "download_ocio_config h w url filename_hint =
     (let cache_path = path_join (ocio_cache_dir h) (cache_filename url filename_hint)
      in if path_exists w cache_path then (Some cache_path, w)
         else
           (case urlopen h url of
              BadRequest \<Rightarrow> (None, w)
            | HTTPError \<Rightarrow> (None, w\<lparr>requests := requests w @ [url]\<rparr>)
            | URLError \<Rightarrow> (None, w\<lparr>requests := requests w @ [url]\<rparr>)
            | ConnectionFails \<Rightarrow> (None, w\<lparr>requests := requests w @ [url]\<rparr>)
            | ReadFails \<Rightarrow>
                (let w1 = w\<lparr>requests := requests w @ [url]\<rparr>
                 in if can_create h cache_path
                    then (None, w1\<lparr>files := (files w1)(cache_path \<mapsto> [])\<rparr>)
                    else (None, w1))
            | Body content \<Rightarrow>
                (let w1 = w\<lparr>requests := requests w @ [url]\<rparr>
                 in if \<not> can_create h cache_path then (None, w1)
                    else
                      let w2 = w1\<lparr>files := (files w1)(cache_path \<mapsto> content)\<rparr>;
                          file_size = length content
                      in if file_size < 1000
                         then (None, w2\<lparr>files := (files w2)(cache_path := None)\<rparr>)
                         else (Some cache_path, w2))))"

definition preset_ocio_urls :: "(string \<times> string) list" where
  "preset_ocio_urls =
     [(''ACES 1.3 CG Config'',
       ''https://github.com/AcademySoftwareFoundation/OpenColorIO-Config-ACES/releases/download/v2.1.0-v2.2.0/cg-config-v2.2.0_aces-v1.3_ocio-v2.4.ocio''),
      (''ACES 1.3 Studio Config'',
       ''https://github.com/AcademySoftwareFoundation/OpenColorIO-Config-ACES/releases/download/v2.1.0-v2.2.0/studio-config-v2.2.0_aces-v1.3_ocio-v2.4.ocio''),
      (''ACES 2.0 CG Config'',
       ''https://github.com/AcademySoftwareFoundation/OpenColorIO-Config-ACES/releases/download/v3.0.0/cg-config-v3.0.0_aces-v2.0_ocio-v2.4.ocio''),
      (''ACES 2.0 Studio Config'',
       ''https://github.com/AcademySoftwareFoundation/OpenColorIO-Config-ACES/releases/download/v3.0.0/studio-config-v3.0.0_aces-v2.0_ocio-v2.4.ocio'')]"

definition auto_paths :: "host \<Rightarrow> string list" where
  "auto_paths h =
     [''./ocio_configs/cg-config-v2.2.0_aces-v1.3_ocio-v2.4.ocio'',
      ''./ocio_configs/studio-config-v2.2.0_aces-v1.3_ocio-v2.4.ocio'',
      ''./ocio_configs/config.ocio'',
      ''./ocio_configs/aces_1.2/config.ocio'',
      home h @ ''/ComfyUI/ocio_configs/cg-config-v2.2.0_aces-v1.3_ocio-v2.4.ocio'']"

definition find_or_download_ocio_config ::
  "host \<Rightarrow> world \<Rightarrow> string \<Rightarrow> string \<Rightarrow> string \<Rightarrow> string \<Rightarrow> string option \<times> world" where
  "find_or_download_ocio_config h w source path url preset =
     (if source = ''Local Path'' \<and> path \<noteq> [] then
        (if path_exists w path then (Some path, w) else (None, w))
      else if source = ''URL'' \<and> url \<noteq> [] then
        download_ocio_config h w url ''config.ocio''
      else if source = ''Preset'' then
        (case map_of preset_ocio_urls preset of
           Some preset_url \<Rightarrow>
             download_ocio_config h w preset_url (replace_space (py_lower preset) @ ''.ocio'')
         | None \<Rightarrow> (None, w))
      else if source = ''Auto'' then
        (case find (path_exists w) (auto_paths h) of
           Some auto_path \<Rightarrow> (Some auto_path, w)
         | None \<Rightarrow>
             (case map_of preset_ocio_urls ''ACES 1.3 CG Config'' of
                Some preset_url \<Rightarrow> download_ocio_config h w preset_url ''aces13_cg.ocio''
              | None \<Rightarrow> (None, w)))
      else (None, w))"

subsection \<open>Writing one EXR file\<close>

text \<open>\<open>np.min\<close> and \<open>np.max\<close> of a non-empty array.\<close>

definition np_min :: "real list \<Rightarrow> real" where
  "np_min xs = fold min (tl xs) (hd xs)"

definition np_max :: "real list \<Rightarrow> real" where
  "np_max xs = fold max (tl xs) (hd xs)"

definition colorspace_attributes :: "string \<Rightarrow> (string \<times> string) list" where
  "colorspace_attributes colorspace =
     (if colorspace = ''ACES2065-1'' then
        [(''chromaticities'', ''0.7347,0.2653,0.0000,1.0000,0.0001,-0.0770,0.32168,0.33767''),
         (''WhitePoint'', ''D60''),
         (''primaries'', ''ACES''),
         (''Encoding'', ''ACES2065-1''),
         (''TransferFunction'', ''Linear''),
         (''Gamut'', ''AP0'')]
      else if colorspace = ''ACEScg'' then
        [(''chromaticities'', ''0.713,0.293,0.165,0.830,0.128,0.044,0.32168,0.33767''),
         (''WhitePoint'', ''D60''),
         (''primaries'', ''ACEScg''),
         (''Encoding'', ''ACEScg''),
         (''TransferFunction'', ''Linear''),
         (''Gamut'', ''AP1'')]
      else [])"

definition exr_attributes ::
  "host \<Rightarrow> string \<Rightarrow> string \<Rightarrow> real \<Rightarrow> real \<Rightarrow> (string \<times> string) list" where
  "exr_attributes h colorspace compression min_val max_val =
     [(''compression'', compression),
      (''oiio:ColorSpace'', colorspace),
      (''ColorSpace'', colorspace),
      (''Software'', ''ComfyUI ACES EXR OCIO Node''),
      (''Description'', ''ACES '' @ colorspace @ '' EXR from ComfyUI with OCIO support''),
      (''ComfyUI:Node'', ''ACESEXRSaveOCIO''),
      (''ComfyUI:Workflow'', ''WAN -> sRGB -> ACES'')]
     @ colorspace_attributes colorspace
     @ [(''OriginalRange'',
         ''['' @ fmt_fixed h 6 min_val @ '', '' @ fmt_fixed h 6 max_val @ '']'')]
     @ (if max_val > 1.0
        then [(''HDR'', ''true''), (''MaxLuminance'', fmt_fixed h 3 max_val)]
        else [])"

text \<open>
  The body of the \<open>try\<close> block of \<open>save_exr_aces\<close>: the text of the success message, or
  the exception. The messages of \<open>ValueError\<close> are those of CPython and NumPy.
\<close>

definition save_exr_aces_try ::
  "host \<Rightarrow> ndarray \<Rightarrow> string \<Rightarrow> string \<Rightarrow> string \<Rightarrow> string \<Rightarrow> py_error + string" where
  "save_exr_aces_try h image_array filepath colorspace compression pixel_type =
     (case shape image_array of
        [height, width, channels] \<Rightarrow>
          if data image_array = []
          then Inl (ValueError
                 ''zero-size array to reduction operation minimum which has no identity'')
          else
            let min_val = np_min (data image_array);
                max_val = np_max (data image_array);
                spec = exr_attributes h colorspace compression min_val max_val
            in (case oiio h filepath (if pixel_type = ''half'' then HALF else FLOAT) spec
                       image_array of
                  NoOutput \<Rightarrow>
                    Inl (RuntimeError
                      (ru_nevozmozhno_sozdat @ '' EXR output '' @ ru_dlya @ '' '' @ filepath))
                | NotOpened \<Rightarrow>
                    Inl (RuntimeError
                      (ru_nevozmozhno_otkryt @ '' '' @ filepath @ '' '' @ ru_dlya_zapisi @ '' EXR''))
                | NotWritten \<Rightarrow>
                    Inl (RuntimeError (ru_oshibka_zapisi @ '' EXR '' @ ru_dannykh))
                | Raises m \<Rightarrow> Inl (OtherError m)
                | Written \<Rightarrow>
                    Inr (''EXR '' @ colorspace @ '' ('' @ pixel_type @ '', '' @ compression
                         @ '', range: ['' @ fmt_fixed h 3 min_val @ '', ''
                         @ fmt_fixed h 3 max_val @ ''])''))
      | shp \<Rightarrow>
          if length shp < 3
          then Inl (ValueError (''not enough values to unpack (expected 3, got ''
                                 @ str_nat (length shp) @ '')''))
          else Inl (ValueError ''too many values to unpack (expected 3)''))"

definition save_exr_aces ::
  "host \<Rightarrow> ndarray \<Rightarrow> string \<Rightarrow> string \<Rightarrow> string \<Rightarrow> string \<Rightarrow> bool \<times> string" where
  "save_exr_aces h image_array filepath colorspace compression pixel_type =
     (case save_exr_aces_try h image_array filepath colorspace compression pixel_type of
        Inr info \<Rightarrow> (True, info)
      | Inl e \<Rightarrow> (False, ru_oshibka @ '' EXR: '' @ error_text e))"

subsection \<open>The save operation\<close>

text \<open>The arguments of \<open>save_aces_exr\<close> that every frame uses.\<close>

record save_args =
  arg_filename_prefix :: string
  arg_colorspace :: string
  arg_compression :: string
  arg_pixel_type :: string
  arg_input_colorspace :: string

text \<open>
  The three steps both branches of \<open>save_aces_exr\<close> take for a frame: \<open>tensor_to_numpy\<close>,
  \<open>convert_colorspace\<close>, \<open>save_exr_aces\<close>. The result is the success flag, the conversion
  text, the writer's text and the array handed to \<open>save_exr_aces\<close>; it is an exception when
  \<open>tensor_to_numpy\<close> or the conversion raises.
\<close>

definition convert_and_save ::
  "host \<Rightarrow> save_args \<Rightarrow> tensor \<Rightarrow> string
     \<Rightarrow> py_error + ((bool \<times> string \<times> string) \<times> ndarray)" where
  "convert_and_save h args image_tensor filepath =
     (case tensor_to_numpy h image_tensor of
        Inl e \<Rightarrow> Inl e
      | Inr image_array \<Rightarrow>
          (case convert_colorspace image_array (arg_input_colorspace args)
                  (arg_colorspace args) of
             Inl e \<Rightarrow> Inl e
           | Inr (converted_array, conv_info) \<Rightarrow>
               (case save_exr_aces h converted_array filepath (arg_colorspace args)
                       (arg_compression args) (arg_pixel_type args) of
                  (success, format_info) \<Rightarrow>
                    Inr ((success, conv_info, format_info), converted_array))))"

definition batch_filepath :: "host \<Rightarrow> save_args \<Rightarrow> nat \<Rightarrow> string" where
  "batch_filepath h args i =
     (let filename = arg_filename_prefix args @ ''_'' @ fmt_05d i @ ''.exr''
      in path_join (output_dir h) filename)"

definition single_filepath :: "host \<Rightarrow> save_args \<Rightarrow> string" where
  "single_filepath h args =
     (let filename = arg_filename_prefix args @ ''.exr''
      in path_join (output_dir h) filename)"

text \<open>Frame \<open>i\<close> of a batch, up to the call of \<open>save_exr_aces\<close>.\<close>

definition batch_frame ::
  "host \<Rightarrow> save_args \<Rightarrow> tensor \<Rightarrow> nat \<Rightarrow> py_error + ((bool \<times> string \<times> string) \<times> ndarray)" where
  "batch_frame h args images i =
     (case getitem images i of
        Inl e \<Rightarrow> Inl e
      | Inr image_tensor \<Rightarrow> convert_and_save h args image_tensor (batch_filepath h args i))"

definition frame_label :: "nat \<Rightarrow> nat \<Rightarrow> string" where
  "frame_label i total_frames =
     ''Frame '' @ str_nat (i + 1) @ ''/'' @ str_nat total_frames @ '': ''"

definition log_call :: "world \<Rightarrow> string \<Rightarrow> ndarray \<Rightarrow> world" where
  "log_call w filepath image_array = w\<lparr>exr_calls := exr_calls w @ [(filepath, image_array)]\<rparr>"

text \<open>
  The loop \<open>for i in range(total_frames)\<close> over the indices still to do, with the lists
  \<open>saved_files\<close> and \<open>conversion_infos\<close> built so far. An exception ends the loop.
\<close>

fun batch_loop ::
  "host \<Rightarrow> save_args \<Rightarrow> tensor \<Rightarrow> nat \<Rightarrow> nat list \<Rightarrow> world \<Rightarrow> string list \<Rightarrow> string list
     \<Rightarrow> (py_error + (string list \<times> string list)) \<times> world" where
  "batch_loop h args images total_frames [] w saved_files conversion_infos =
     (Inr (saved_files, conversion_infos), w)"
| "batch_loop h args images total_frames (i # rest) w saved_files conversion_infos =
     (case batch_frame h args images i of
        Inl e \<Rightarrow> (Inl e, w)
      | Inr ((success, conv_info, format_info), converted_array) \<Rightarrow>
          let filepath = batch_filepath h args i;
              w' = log_call w filepath converted_array
          in if success
             then batch_loop h args images total_frames rest w'
                    (saved_files @ [filepath])
                    (conversion_infos
                       @ [frame_label i total_frames @ conv_info @ '' -> '' @ format_info])
             else batch_loop h args images total_frames rest w' saved_files
                    (conversion_infos
                       @ [frame_label i total_frames @ ru_OSHIBKA @ '' - '' @ format_info]))"

text \<open>A single image, up to the call of \<open>save_exr_aces\<close>, and the whole branch.\<close>

definition single_frame ::
  "host \<Rightarrow> save_args \<Rightarrow> tensor \<Rightarrow> py_error + ((bool \<times> string \<times> string) \<times> ndarray)" where
  "single_frame h args images =
     (case (if length (shape images) = 4 then getitem images 0 else Inr images) of
        Inl e \<Rightarrow> Inl e
      | Inr image_tensor \<Rightarrow> convert_and_save h args image_tensor (single_filepath h args))"

definition single_image ::
  "host \<Rightarrow> save_args \<Rightarrow> tensor \<Rightarrow> world
     \<Rightarrow> (py_error + (string list \<times> string list)) \<times> world" where
  "single_image h args images w =
     (case single_frame h args images of
        Inl e \<Rightarrow> (Inl e, w)
      | Inr ((success, conv_info, format_info), converted_array) \<Rightarrow>
          let filepath = single_filepath h args;
              w' = log_call w filepath converted_array
          in if success
             then (Inr ([filepath], [conv_info @ '' -> '' @ format_info]), w')
             else (Inr ([], [ru_OSHIBKA @ '' - '' @ format_info]), w'))"

definition oiio_missing_msg :: string where
  "oiio_missing_msg =
     cross_mark @ '' OpenImageIO '' @ ru_nedostupen_ustanovite
       @ '' pip install OpenImageIO '' @ ru_ili
       @ '' conda install -c conda-forge openimageio''"

definition save_aces_exr ::
  "host \<Rightarrow> world \<Rightarrow> tensor \<Rightarrow> string \<Rightarrow> string \<Rightarrow> string \<Rightarrow> string \<Rightarrow> string
     \<Rightarrow> string \<Rightarrow> string \<Rightarrow> string \<Rightarrow> string
     \<Rightarrow> (py_error + (string \<times> string)) \<times> world" where
  "save_aces_exr h w images filename_prefix colorspace compression pixel_type
       input_colorspace ocio_config_source ocio_config_path ocio_config_url ocio_preset =
     (if \<not> OIIO_AVAILABLE h then (Inr ([], oiio_missing_msg), w)
      else
        case find_or_download_ocio_config h w ocio_config_source ocio_config_path
               ocio_config_url ocio_preset of
          (ocio_config_path_resolved, w1) \<Rightarrow>
            let args = \<lparr>arg_filename_prefix = filename_prefix, arg_colorspace = colorspace,
                        arg_compression = compression, arg_pixel_type = pixel_type,
                        arg_input_colorspace = input_colorspace\<rparr>
            in (case (if length (shape images) = 4 \<and> hd (shape images) > 1
                      then batch_loop h args images (hd (shape images))
                             [0..<hd (shape images)] w1 [] []
                      else single_image h args images w1) of
                  (Inl e, w2) \<Rightarrow> (Inl e, w2)
                | (Inr (saved_files, conversion_infos), w2) \<Rightarrow>
                    let exr_path = (if saved_files \<noteq> [] then hd saved_files else []);
                        conversion_info = py_join newline conversion_infos
                    in (Inr (exr_path, conversion_info), w2)))"

subsection \<open>The routes of the colour conversion\<close>

text \<open>The pairs \<open>convert_colorspace\<close> has a branch for, besides equal names.\<close>

definition supported_pairs :: "(string \<times> string) list" where
  "supported_pairs =
     [(''sRGB'', ''ACES2065-1''), (''ACES2065-1'', ''ACEScg''), (''sRGB'', ''ACEScg''),
      (''Linear sRGB'', ''ACES2065-1'')]"

text \<open>
  The routes that multiply by a matrix, and the one route whose matrix alone has negative
  entries.
\<close>

definition matrix_route :: "string \<Rightarrow> string \<Rightarrow> bool" where
  "matrix_route input_cs output_cs =
     (input_cs \<noteq> output_cs \<and> (input_cs, output_cs) \<in> set supported_pairs)"


text \<open>The number of samples of one frame of the input of \<open>save_aces_exr\<close>.\<close>

definition frame_samples :: "tensor \<Rightarrow> nat" where
  "frame_samples images =
     prod_list (if length (shape images) = 4 then tl (shape images) else shape images)"


text \<open>
  What frame \<open>i\<close> of a batch contributes: whether it was written, its entry of the report
  and the call of \<open>save_exr_aces\<close>.
\<close>

definition frame_success :: "host \<Rightarrow> save_args \<Rightarrow> tensor \<Rightarrow> nat \<Rightarrow> bool" where
  "frame_success h args images i =
     (case batch_frame h args images i of
        Inl e \<Rightarrow> False
      | Inr ((success, conv_info, format_info), converted_array) \<Rightarrow> success)"

definition frame_entry :: "host \<Rightarrow> save_args \<Rightarrow> tensor \<Rightarrow> nat \<Rightarrow> nat \<Rightarrow> string" where
  "frame_entry h args images total_frames i =
     (case batch_frame h args images i of
        Inl e \<Rightarrow> []
      | Inr ((success, conv_info, format_info), converted_array) \<Rightarrow>
          if success then frame_label i total_frames @ conv_info @ '' -> '' @ format_info
          else frame_label i total_frames @ ru_OSHIBKA @ '' - '' @ format_info)"

definition frame_call :: "host \<Rightarrow> save_args \<Rightarrow> tensor \<Rightarrow> nat \<Rightarrow> string \<times> ndarray" where
  "frame_call h args images i =
     (case batch_frame h args images i of
        Inl e \<Rightarrow> (batch_filepath h args i, \<lparr>shape = [], data = []\<rparr>)
      | Inr (r, converted_array) \<Rightarrow> (batch_filepath h args i, converted_array))"

subsection \<open>Example inputs\<close>

text \<open>
  A host whose network answers every URL with a body of 1000 bytes, except one URL with
  999 bytes, and whose imaging library writes every file but \<open>/out/shot_00000.exr\<close>; a
  world with no files; the same world after \<open>example_url\<close> was fetched; and a few tensors:
  three samples, one RGBA pixel, a batch of two frames, a batch of one frame, one pure
  green pixel, one pixel with a negative sample, one pixel that requires grad, one of
  dtype \<open>bfloat16\<close> and one of dtype \<open>float64\<close>.
\<close>

definition example_pixels :: ndarray where
  "example_pixels = \<lparr>shape = [1, 1, 3], data = [0.02, 0.04045, 0.5]\<rparr>"

definition example_world :: world where
  "example_world = \<lparr>files = Map.empty, requests = [], exr_calls = []\<rparr>"

definition example_host :: host where
  "example_host =
     \<lparr>OIIO_AVAILABLE = True, output_dir = ''/out'', ocio_cache_dir = ''/cache'',
      home = ''/home/user'',
      urlopen = (\<lambda>url. if url = ''https://example.com/small.ocio''
                       then Body (replicate 999 CHR ''x'')
                       else Body (replicate 1000 CHR ''x'')),
      can_create = (\<lambda>p. True),
      oiio = (\<lambda>p t s a. if p = ''/out/shot_00000.exr'' then NotWritten else Written),
      fmt_fixed = (\<lambda>n x. ''?''),
      float32_round = (\<lambda>x. x)\<rparr>"

definition example_url :: string where
  "example_url = ''https://example.com/a.ocio''"

definition example_world_cached :: world where
  "example_world_cached =
     \<lparr>files = [''/cache/'' @ cache_filename example_url ''config.ocio''
                 \<mapsto> replicate 1000 CHR ''x''],
      requests = [example_url], exr_calls = []\<rparr>"

definition rgba_pixel :: tensor where
  "rgba_pixel =
     \<lparr>shape = [1, 1, 1, 4], data = [0.5, 0.5, 0.5, 1],
      requires_grad = False, dtype = Float32\<rparr>"

definition example_batch :: tensor where
  "example_batch =
     \<lparr>shape = [2, 1, 1, 3], data = [0.25, 0.5, 2, 0, 0.125, 1],
      requires_grad = False, dtype = Float32\<rparr>"

definition example_args :: save_args where
  "example_args =
     \<lparr>arg_filename_prefix = ''shot'', arg_colorspace = ''ACES2065-1'',
      arg_compression = ''zip'', arg_pixel_type = ''half'',
      arg_input_colorspace = ''ACES2065-1''\<rparr>"

definition example_single :: tensor where
  "example_single =
     \<lparr>shape = [1, 1, 1, 3], data = [0.25, 0.5, 2],
      requires_grad = False, dtype = Float32\<rparr>"



definition grad_pixel :: tensor where
  "grad_pixel =
     \<lparr>shape = [1, 1, 1, 3], data = [0.25, 0.5, 2],
      requires_grad = True, dtype = Float32\<rparr>"

definition bfloat16_pixel :: tensor where
  "bfloat16_pixel =
     \<lparr>shape = [1, 1, 1, 3], data = [0.25, 0.5, 2],
      requires_grad = False, dtype = NonNumpyDtype ''BFloat16''\<rparr>"


section \<open>Properties\<close>

subsection \<open>Colour conversion\<close>

lemma shape_srgb_to_linear: "shape (srgb_to_linear a) = shape a"
  by (simp add: srgb_to_linear_def)

lemma matrix_transform_result:
  "matrix_transform a m =
     (if prod_list (shape a) mod 3 \<noteq> 0
      then Inl (ValueError (''cannot reshape array of size '' @ str_nat (prod_list (shape a))
                              @ '' into shape (3)''))
      else Inr \<lparr>shape = shape a, data = concat (np_dot (chunk 3 (data a)) (matrix_T m))\<rparr>)"
  by (simp add: matrix_transform_def Let_def)

lemma matrix_route_simps:
  "matrix_route ''sRGB'' ''ACES2065-1''" "matrix_route ''ACES2065-1'' ''ACEScg''"
  "matrix_route ''sRGB'' ''ACEScg''" "matrix_route ''Linear sRGB'' ''ACES2065-1''"
  "\<not> matrix_route x x"
  by (simp_all add: matrix_route_def supported_pairs_def)

lemma supported_pairs_cases:
  assumes "(input_cs, output_cs) \<in> set supported_pairs"
  obtains (srgb_aces) "input_cs = ''sRGB''" "output_cs = ''ACES2065-1''"
  | (aces_cg) "input_cs = ''ACES2065-1''" "output_cs = ''ACEScg''"
  | (srgb_cg) "input_cs = ''sRGB''" "output_cs = ''ACEScg''"
  | (linear_aces) "input_cs = ''Linear sRGB''" "output_cs = ''ACES2065-1''"
proof -
  from assms have "(input_cs, output_cs) = (''sRGB'', ''ACES2065-1'') \<or>
      (input_cs, output_cs) = (''ACES2065-1'', ''ACEScg'') \<or>
      (input_cs, output_cs) = (''sRGB'', ''ACEScg'') \<or>
      (input_cs, output_cs) = (''Linear sRGB'', ''ACES2065-1'')"
    unfolding supported_pairs_def by (simp only: list.set insert_iff empty_iff) simp
  then show ?thesis
    using that by (elim disjE) (simp_all only: prod.inject)
qed

lemma convert_else_branch:
  assumes "input_cs \<noteq> output_cs" and "(input_cs, output_cs) \<notin> set supported_pairs"
  shows "convert_colorspace a input_cs output_cs = Inr (a, unsupported_info input_cs output_cs)"
  using assms by (auto simp add: convert_colorspace_def supported_pairs_def)

lemma convert_colorspace_isl:
  "isl (convert_colorspace a input_cs output_cs) =
     (matrix_route input_cs output_cs \<and> prod_list (shape a) mod 3 \<noteq> 0)"
proof (cases "input_cs = output_cs")
  case True
  then show ?thesis
    by (simp add: convert_colorspace_def matrix_route_simps)
next
  case ne: False
  show ?thesis
  proof (cases "(input_cs, output_cs) \<in> set supported_pairs")
    case False
    with ne show ?thesis
      by (simp add: convert_else_branch matrix_route_def)
  next
    case True
    then show ?thesis
      by (cases rule: supported_pairs_cases)
        (simp_all add: convert_colorspace_def matrix_transform_result shape_srgb_to_linear
          matrix_route_simps Let_def)
  qed
qed

text \<open>
  Claim C7. The linearisation is element-wise: the shape and the number of samples are
  kept, a sample \<open>v\<close> in \<open>[0, 0.04045]\<close> becomes \<open>v / 12.92\<close>, and a sample above
  \<open>0.04045\<close> becomes \<open>((v + 0.055) / 1.055) ^ 2.4\<close>.
\<close>

theorem srgb_to_linear_elementwise:
  "shape (srgb_to_linear a) = shape a \<and>
   length (data (srgb_to_linear a)) = length (data a) \<and>
   (\<forall>i < length (data a).
      (0 \<le> data a ! i \<and> data a ! i \<le> 0.04045
         \<longrightarrow> data (srgb_to_linear a) ! i = data a ! i / 12.92) \<and>
      (0.04045 < data a ! i
         \<longrightarrow> data (srgb_to_linear a) ! i = ((data a ! i + 0.055) / 1.055) powr 2.4))"
  by (simp add: srgb_to_linear_def srgb_to_linear_sample_def)

theorem srgb_to_linear_elementwise_witness:
  "shape (srgb_to_linear example_pixels) = [1, 1, 3] \<and>
   data (srgb_to_linear example_pixels) ! 0 = 0.02 / 12.92 \<and>
   data (srgb_to_linear example_pixels) ! 1 = 0.04045 / 12.92 \<and>
   data (srgb_to_linear example_pixels) ! 2 = ((0.5 + 0.055) / 1.055) powr 2.4"
proof -
  note t = srgb_to_linear_elementwise [of example_pixels]
  have d: "data example_pixels = [0.02, 0.04045, 0.5]" and s: "shape example_pixels = [1, 1, 3]"
    by (simp_all add: example_pixels_def)
  from t have all: "\<And>i. i < 3 \<Longrightarrow>
      (0 \<le> data example_pixels ! i \<and> data example_pixels ! i \<le> 0.04045
         \<longrightarrow> data (srgb_to_linear example_pixels) ! i = data example_pixels ! i / 12.92) \<and>
      (0.04045 < data example_pixels ! i
         \<longrightarrow> data (srgb_to_linear example_pixels) ! i
               = ((data example_pixels ! i + 0.055) / 1.055) powr 2.4)"
    by (simp add: d)
  from t s have "shape (srgb_to_linear example_pixels) = [1, 1, 3]"
    by simp
  moreover from all [of 0] have "data (srgb_to_linear example_pixels) ! 0 = 0.02 / 12.92"
    by (simp add: d)
  moreover from all [of 1] have "data (srgb_to_linear example_pixels) ! 1 = 0.04045 / 12.92"
    by (simp add: d)
  moreover from all [of 2]
  have "data (srgb_to_linear example_pixels) ! 2 = ((0.5 + 0.055) / 1.055) powr 2.4"
    by (simp add: d)
  ultimately show ?thesis by blast
qed

text \<open>
  Claim C2. Converting from sRGB to ACEScg is the linearisation followed by the two matrix
  products, and it is the conversion from sRGB to ACES2065-1 followed by the conversion
  from ACES2065-1 to ACEScg (an exception of a step is the exception of the whole).
\<close>

theorem convert_srgb_acescg_composed:
  "map_sum id fst (convert_colorspace buf ''sRGB'' ''ACEScg'') =
     (case matrix_transform (srgb_to_linear buf) SRGB_TO_ACES2065_MATRIX of
        Inl e \<Rightarrow> Inl e
      | Inr aces2065 \<Rightarrow> matrix_transform aces2065 ACES2065_TO_ACESCG_MATRIX) \<and>
   map_sum id fst (convert_colorspace buf ''sRGB'' ''ACEScg'') =
     (case convert_colorspace buf ''sRGB'' ''ACES2065-1'' of
        Inl e \<Rightarrow> Inl e
      | Inr (aces2065, info) \<Rightarrow>
          map_sum id fst (convert_colorspace aces2065 ''ACES2065-1'' ''ACEScg''))"
  by (simp add: convert_colorspace_def split: sum.splits)

text \<open>
  Claim C3. For two different colour-space names that are not one of the four supported
  pairs, \<open>convert_colorspace\<close> does not raise: it returns the buffer as it is, with a text
  that names the source and the destination and says that the conversion is unavailable.
\<close>

theorem convert_unsupported_passthrough:
  assumes "input_cs \<noteq> output_cs" and "(input_cs, output_cs) \<notin> set supported_pairs"
  shows "convert_colorspace buf input_cs output_cs =
           Inr (buf, ru_bez_konvertatsii @ '' ('' @ input_cs @ '' -> '' @ output_cs @ '' ''
                       @ ru_nedostupna @ '')'')"
  using assms by (auto simp add: convert_colorspace_def supported_pairs_def unsupported_info_def)

theorem convert_unsupported_passthrough_witness:
  "convert_colorspace example_pixels ''Rec.709'' ''ACEScg'' =
     Inr (example_pixels, ru_bez_konvertatsii @ '' (Rec.709 -> ACEScg '' @ ru_nedostupna @ '')'')"
proof -
  have a: "''Rec.709'' \<noteq> ''ACEScg''" by simp
  have b: "(''Rec.709'', ''ACEScg'') \<notin> set supported_pairs"
    by (simp add: supported_pairs_def)
  from convert_unsupported_passthrough [OF a b, of example_pixels] show ?thesis by simp
qed

subsection \<open>The configuration cache\<close>

lemma length_le_bytes: "length (le_bytes k v) = k"
  by (simp add: le_bytes_def)

lemma length_md5_hexdigest: "length (md5_hexdigest s) = 32"
  by (simp add: md5_hexdigest_def hex_byte_def length_concat length_le_bytes comp_def
      sum_list_triv split: prod.splits)

lemma cache_path_eq:
  "path_join d (cache_filename url hint) =
     (if d = [] \<or> last d = CHR ''/'' then d @ cache_filename url hint
      else d @ ''/'' @ cache_filename url hint)"
  by (simp add: path_join_def cache_filename_def)

lemma cache_filename_same_url:
  "(cache_filename u h1 = cache_filename u h2) = (h1 = h2)"
  by (simp add: cache_filename_def)

text \<open>
  Claim C4, as amended. The cache file name is a function of the URL and of the file-name
  hint: two fetches use the same cache file exactly when their hints are equal and the
  first eight hexadecimal digits of the MD5 of their URLs are equal.
\<close>

theorem cache_filename_eq_iff:
  "(cache_filename u1 h1 = cache_filename u2 h2) =
     (take 8 (md5_hexdigest u1) = take 8 (md5_hexdigest u2) \<and> h1 = h2)"
proof -
  have "length (take 8 (md5_hexdigest u1)) = length (take 8 (md5_hexdigest u2))"
    by (simp add: length_md5_hexdigest)
  then show ?thesis
    by (simp add: cache_filename_def)
qed

lemma md5_prefix_43811:
  "take 8 (md5_hexdigest ''https://example.com/ocio/43811.ocio'') = ''b56f1290''"
  by code_simp

lemma md5_prefix_44646:
  "take 8 (md5_hexdigest ''https://example.com/ocio/44646.ocio'') = ''b56f1290''"
  by code_simp

lemma preset_aces13_cg:
  "map_of preset_ocio_urls ''ACES 1.3 CG Config'' =
     Some ''https://github.com/AcademySoftwareFoundation/OpenColorIO-Config-ACES/releases/download/v2.1.0-v2.2.0/cg-config-v2.2.0_aces-v1.3_ocio-v2.4.ocio''"
  by (simp add: preset_ocio_urls_def)

text \<open>
  Against claim C4 as stated: two different URLs with the same cache file name (they
  resolve to the same path), and one URL, that of the preset \<open>ACES 1.3 CG Config\<close>, that
  the sources \<open>Auto\<close> and \<open>Preset\<close> cache under two different names.
\<close>

theorem cache_filename_collisions:
  "''https://example.com/ocio/43811.ocio'' \<noteq> ''https://example.com/ocio/44646.ocio'' \<and>
   cache_filename ''https://example.com/ocio/43811.ocio'' ''config.ocio'' =
     cache_filename ''https://example.com/ocio/44646.ocio'' ''config.ocio'' \<and>
   fst (find_or_download_ocio_config example_host example_world ''URL'' []
          ''https://example.com/ocio/43811.ocio'' []) =
     fst (find_or_download_ocio_config example_host example_world ''URL'' []
          ''https://example.com/ocio/44646.ocio'' []) \<and>
   fst (find_or_download_ocio_config example_host example_world ''Auto'' [] [] []) \<noteq>
     fst (find_or_download_ocio_config example_host example_world ''Preset'' [] []
            ''ACES 1.3 CG Config'')"
proof -
  have "cache_filename ''https://example.com/ocio/43811.ocio'' ''config.ocio'' =
     cache_filename ''https://example.com/ocio/44646.ocio'' ''config.ocio''"
    by (simp add: cache_filename_def md5_prefix_43811 md5_prefix_44646)
  moreover have "fst (find_or_download_ocio_config example_host example_world ''URL'' []
          ''https://example.com/ocio/43811.ocio'' []) =
     fst (find_or_download_ocio_config example_host example_world ''URL'' []
          ''https://example.com/ocio/44646.ocio'' [])"
    by (simp add: find_or_download_ocio_config_def download_ocio_config_def cache_path_eq
        example_host_def example_world_def path_exists_def cache_filename_def
        md5_prefix_43811 md5_prefix_44646 Let_def)
  moreover have "fst (find_or_download_ocio_config example_host example_world ''Auto'' [] [] [])
     \<noteq> fst (find_or_download_ocio_config example_host example_world ''Preset'' [] []
            ''ACES 1.3 CG Config'')"
    by (simp add: find_or_download_ocio_config_def download_ocio_config_def cache_path_eq
        example_host_def example_world_def path_exists_def preset_aces13_cg
        auto_paths_def Let_def cache_filename_same_url replace_space_def py_lower_def
        lower_char_def)
  ultimately show ?thesis by simp
qed

text \<open>
  Claim C5. When a call of \<open>download_ocio_config\<close> returned a path, a second call with the
  same URL and hint returns the same path and leaves the state as it is: no request is
  added to the trace, and the cached file is neither read nor checked.
\<close>

theorem download_twice_cache_hit:
  assumes "download_ocio_config h w url hint = (Some p, w')"
  shows "download_ocio_config h w' url hint = (Some p, w') \<and>
         requests (snd (download_ocio_config h w' url hint)) = requests w' \<and>
         files (snd (download_ocio_config h w' url hint)) = files w' \<and>
         p = path_join (ocio_cache_dir h) (cache_filename url hint)"
proof -
  let ?cp = "path_join (ocio_cache_dir h) (cache_filename url hint)"
  from assms have p: "p = ?cp" and ex: "path_exists w' ?cp"
    by (auto simp add: download_ocio_config_def Let_def path_exists_def
        split: if_splits http_outcome.splits)
  from ex have "download_ocio_config h w' url hint = (Some ?cp, w')"
    by (simp add: download_ocio_config_def)
  with p show ?thesis by simp
qed

theorem download_twice_cache_hit_witness:
  "download_ocio_config example_host example_world example_url ''config.ocio'' =
     (Some (''/cache/'' @ cache_filename example_url ''config.ocio''), example_world_cached) \<and>
   download_ocio_config example_host example_world_cached example_url ''config.ocio'' =
     (Some (''/cache/'' @ cache_filename example_url ''config.ocio''), example_world_cached) \<and>
   requests (snd (download_ocio_config example_host example_world_cached example_url
                    ''config.ocio'')) = [example_url]"
proof -
  have first: "download_ocio_config example_host example_world example_url ''config.ocio'' =
     (Some (''/cache/'' @ cache_filename example_url ''config.ocio''), example_world_cached)"
    by (simp add: download_ocio_config_def cache_path_eq example_host_def example_world_def
        example_world_cached_def example_url_def path_exists_def Let_def)
  have r: "requests example_world_cached = [example_url]"
    by (simp add: example_world_cached_def)
  note t = download_twice_cache_hit [OF first]
  from t have second:
    "download_ocio_config example_host example_world_cached example_url ''config.ocio'' =
       (Some (''/cache/'' @ cache_filename example_url ''config.ocio''), example_world_cached)"
    by blast
  from first second r show ?thesis
    by simp
qed

text \<open>
  Claim C8. When the file is not in the cache and the download delivers fewer than 1000
  bytes, \<open>download_ocio_config\<close> returns \<open>None\<close> and the cache file is gone: the files are
  those from before the call.
\<close>

theorem undersized_download_rejected:
  assumes "\<not> path_exists w (path_join (ocio_cache_dir h) (cache_filename url hint))"
    and "urlopen h url = Body content"
    and "length content < 1000"
  shows "fst (download_ocio_config h w url hint) = None \<and>
         \<not> path_exists (snd (download_ocio_config h w url hint))
             (path_join (ocio_cache_dir h) (cache_filename url hint)) \<and>
         files (snd (download_ocio_config h w url hint)) = files w \<and>
         requests (snd (download_ocio_config h w url hint)) = requests w @ [url]"
  using assms
  by (auto simp add: download_ocio_config_def Let_def path_exists_def fun_upd_idem_iff)

theorem undersized_download_rejected_witness:
  "fst (download_ocio_config example_host example_world ''https://example.com/small.ocio''
          ''config.ocio'') = None \<and>
   files (snd (download_ocio_config example_host example_world
                 ''https://example.com/small.ocio'' ''config.ocio'')) = Map.empty \<and>
   requests (snd (download_ocio_config example_host example_world
                 ''https://example.com/small.ocio'' ''config.ocio''))
     = [''https://example.com/small.ocio'']"
proof -
  have a: "\<not> path_exists example_world
             (path_join (ocio_cache_dir example_host)
                (cache_filename ''https://example.com/small.ocio'' ''config.ocio''))"
    by (simp add: path_exists_def example_world_def)
  have b: "urlopen example_host ''https://example.com/small.ocio''
             = Body (replicate 999 CHR ''x'')"
    by (simp add: example_host_def)
  have c: "length (replicate 999 CHR ''x'') < 1000"
    by simp
  from undersized_download_rejected [OF a b c] show ?thesis
    by (simp add: example_world_def)
qed

subsection \<open>The save operation: which frames raise\<close>

lemma download_exr_calls:
  "exr_calls (snd (download_ocio_config h w url hint)) = exr_calls w"
  by (simp add: download_ocio_config_def Let_def split: http_outcome.splits)

lemma find_or_download_exr_calls:
  "exr_calls (snd (find_or_download_ocio_config h w source path url preset)) = exr_calls w"
  by (simp add: find_or_download_ocio_config_def download_exr_calls
      split: option.splits)

lemma tensor_to_numpy_result:
  "length (shape t) \<noteq> 4 \<Longrightarrow>
   tensor_to_numpy h t =
     (case numpy_error t of
        Some e \<Rightarrow> Inl e
      | None \<Rightarrow> Inr \<lparr>shape = shape t,
                       data = map (\<lambda>v. max (astype_float32 h (dtype t) v) 0) (data t)\<rparr>)"
  by (simp add: tensor_to_numpy_def clip_low_def Let_def comp_def split: option.splits)

lemma convert_and_save_isl:
  assumes "length (shape t) \<noteq> 4"
  shows "isl (convert_and_save h args t p) =
     (numpy_error t \<noteq> None \<or>
      (matrix_route (arg_input_colorspace args) (arg_colorspace args)
        \<and> prod_list (shape t) mod 3 \<noteq> 0))"
proof (cases "numpy_error t")
  case (Some e)
  then show ?thesis
    by (simp add: convert_and_save_def tensor_to_numpy_result [OF assms])
next
  case None
  let ?a = "\<lparr>shape = shape t,
             data = map (\<lambda>v. max (astype_float32 h (dtype t) v) 0) (data t)\<rparr>"
  from None have a: "tensor_to_numpy h t = Inr ?a"
    by (simp add: tensor_to_numpy_result [OF assms])
  from convert_colorspace_isl [of ?a "arg_input_colorspace args" "arg_colorspace args"] None
  show ?thesis
    by (auto simp add: convert_and_save_def a split: sum.splits prod.splits)
qed

lemma numpy_error_getitem:
  "getitem images i = Inr t \<Longrightarrow> numpy_error t = numpy_error images"
  by (auto simp add: getitem_def numpy_error_def split: list.splits if_splits)

lemma batch_frame_isl:
  assumes "length (shape images) = 4" and "i < hd (shape images)"
  shows "isl (batch_frame h args images i) =
     (numpy_error images \<noteq> None \<or>
      (matrix_route (arg_input_colorspace args) (arg_colorspace args)
        \<and> frame_samples images mod 3 \<noteq> 0))"
proof -
  from assms obtain n rest where s: "shape images = n # rest" "length rest = 3" "i < n"
    by (cases "shape images") auto
  then obtain t where t: "getitem images i = Inr t" "shape t = rest"
    by (simp add: getitem_def)
  with s show ?thesis
    using convert_and_save_isl [of t h args "batch_filepath h args i"]
      numpy_error_getitem [OF t(1)]
    by (simp add: batch_frame_def frame_samples_def assms)
qed

lemma single_frame_isl:
  "isl (single_frame h args images) =
     ((length (shape images) = 4 \<and> hd (shape images) = 0) \<or>
      numpy_error images \<noteq> None \<or>
      (matrix_route (arg_input_colorspace args) (arg_colorspace args)
        \<and> frame_samples images mod 3 \<noteq> 0))"
proof (cases "length (shape images) = 4")
  case False
  then show ?thesis
    using convert_and_save_isl [of images h args "single_filepath h args"]
    by (simp add: single_frame_def frame_samples_def)
next
  case True
  then obtain n rest where s: "shape images = n # rest" "length rest = 3"
    by (cases "shape images") auto
  show ?thesis
  proof (cases "n = 0")
    case True
    with s show ?thesis by (simp add: single_frame_def getitem_def)
  next
    case False
    with s obtain t where t: "getitem images 0 = Inr t" "shape t = rest"
      by (simp add: getitem_def)
    with s False show ?thesis
      using convert_and_save_isl [of t h args "single_filepath h args"]
        numpy_error_getitem [OF t(1)]
      by (simp add: single_frame_def frame_samples_def)
  qed
qed

lemma batch_loop_all:
  assumes "\<forall>i \<in> set js. \<not> isl (batch_frame h args images i)"
  shows "batch_loop h args images n js w saved infos =
     (Inr (saved @ map (batch_filepath h args) (filter (frame_success h args images) js),
           infos @ map (frame_entry h args images n) js),
      w\<lparr>exr_calls := exr_calls w @ map (frame_call h args images) js\<rparr>)"
  using assms
proof (induction js arbitrary: w saved infos)
  case Nil
  then show ?case by simp
next
  case (Cons j js)
  from Cons.prems obtain ok ci fi cv where
    f: "batch_frame h args images j = Inr ((ok, ci, fi), cv)"
    by (cases "batch_frame h args images j") auto
  from Cons.prems have rest: "\<forall>i \<in> set js. \<not> isl (batch_frame h args images i)"
    by simp
  show ?case
    by (simp add: f Let_def Cons.IH [OF rest] frame_success_def frame_entry_def
        frame_call_def log_call_def)
qed

lemma batch_loop_fail:
  assumes "\<exists>i \<in> set js. isl (batch_frame h args images i)"
  shows "isl (fst (batch_loop h args images n js w saved infos))"
  using assms
proof (induction js arbitrary: w saved infos)
  case Nil
  then show ?case by simp
next
  case (Cons j js)
  show ?case
  proof (cases "batch_frame h args images j")
    case (Inl e)
    then show ?thesis by simp
  next
    case (Inr r)
    with Cons.prems have "\<exists>i \<in> set js. isl (batch_frame h args images i)"
      by auto
    from Cons.IH [OF this] Inr show ?thesis
      by (cases r) (auto simp add: Let_def split: prod.splits)
  qed
qed

lemma str_nat_digit: "n < 10 \<Longrightarrow> str_nat n = [digit_char n]"
  by (simp add: str_nat.simps)

lemma frames_returns:
  assumes "OIIO_AVAILABLE h"
  shows "isl (fst (save_aces_exr h w images filename_prefix colorspace compression pixel_type
                     input_colorspace source path url preset)) =
         ((length (shape images) = 4 \<and> hd (shape images) = 0) \<or>
          numpy_error images \<noteq> None \<or>
          (matrix_route input_colorspace colorspace \<and> frame_samples images mod 3 \<noteq> 0))"
proof -
  let ?args = "\<lparr>arg_filename_prefix = filename_prefix, arg_colorspace = colorspace,
                 arg_compression = compression, arg_pixel_type = pixel_type,
                 arg_input_colorspace = input_colorspace\<rparr>"
  obtain cfg w1 where r: "find_or_download_ocio_config h w source path url preset = (cfg, w1)"
    by (cases "find_or_download_ocio_config h w source path url preset")
  let ?n = "hd (shape images)"
  show ?thesis
  proof (cases "length (shape images) = 4 \<and> 1 < ?n")
    case True
    then have iff: "\<forall>i < ?n. isl (batch_frame h ?args images i) =
        (numpy_error images \<noteq> None \<or>
         (matrix_route input_colorspace colorspace \<and> frame_samples images mod 3 \<noteq> 0))"
      using batch_frame_isl [of images _ h ?args] by simp
    show ?thesis
    proof (cases "numpy_error images \<noteq> None \<or>
        (matrix_route input_colorspace colorspace \<and> frame_samples images mod 3 \<noteq> 0)")
      case bad: True
      with iff True have "\<exists>i \<in> set [0..<?n]. isl (batch_frame h ?args images i)"
        by (intro bexI [of _ 0]) simp_all
      from batch_loop_fail [OF this, of ?n w1 "[]" "[]"] bad True assms r show ?thesis
        by (auto simp add: save_aces_exr_def Let_def split: prod.splits sum.splits)
    next
      case good: False
      with iff have "\<forall>i \<in> set [0..<?n]. \<not> isl (batch_frame h ?args images i)"
        by simp
      from batch_loop_all [OF this, of ?n w1 "[]" "[]"] good True assms r show ?thesis
        by (simp add: save_aces_exr_def Let_def)
    qed
  next
    case False
    have "isl (fst (single_image h ?args images w1)) = isl (single_frame h ?args images)"
      by (simp add: single_image_def Let_def split: sum.splits prod.splits)
    with False assms r show ?thesis
      using single_frame_isl [of h ?args images]
      by (auto simp add: save_aces_exr_def Let_def split: prod.splits sum.splits)
  qed
qed

lemma first_saved_file:
  "filter P xs \<noteq> [] \<Longrightarrow>
     hd (map f (filter P xs)) = (case find P xs of None \<Rightarrow> [] | Some k \<Rightarrow> f k)"
  by (induction xs) auto

lemma no_saved_file:
  "filter P xs = [] \<Longrightarrow> (case find P xs of None \<Rightarrow> [] | Some k \<Rightarrow> f k) = []"
  by (induction xs) (auto split: if_splits)

lemma save_aces_exr_batch:
  assumes "OIIO_AVAILABLE h"
    and "length (shape images) = 4" and "1 < hd (shape images)"
    and "args = \<lparr>arg_filename_prefix = filename_prefix, arg_colorspace = colorspace,
                  arg_compression = compression, arg_pixel_type = pixel_type,
                  arg_input_colorspace = input_colorspace\<rparr>"
    and "\<forall>k < hd (shape images). \<not> isl (batch_frame h args images k)"
  shows "save_aces_exr h w images filename_prefix colorspace compression pixel_type
           input_colorspace source path url preset =
         (Inr (case find (frame_success h args images) [0..<hd (shape images)] of
                 None \<Rightarrow> [] | Some k \<Rightarrow> batch_filepath h args k,
               py_join newline
                 (map (frame_entry h args images (hd (shape images))) [0..<hd (shape images)])),
          (snd (find_or_download_ocio_config h w source path url preset))
            \<lparr>exr_calls := exr_calls w
                 @ map (frame_call h args images) [0..<hd (shape images)]\<rparr>)"
proof -
  obtain cfg w1 where r: "find_or_download_ocio_config h w source path url preset = (cfg, w1)"
    by (cases "find_or_download_ocio_config h w source path url preset")
  from find_or_download_exr_calls [of h w source path url preset] r
  have calls: "exr_calls w1 = exr_calls w" by simp
  from assms(5) have "\<forall>i \<in> set [0..<hd (shape images)]. \<not> isl (batch_frame h args images i)"
    by simp
  note loop = batch_loop_all [OF this, of "hd (shape images)" w1 "[]" "[]"]
  show ?thesis
    using assms(1,2,3) r calls
    by (simp add: save_aces_exr_def Let_def assms(4) [symmetric] loop first_saved_file
        no_saved_file)
qed

lemma save_aces_exr_single:
  assumes "OIIO_AVAILABLE h"
    and "\<not> (length (shape images) = 4 \<and> 1 < hd (shape images))"
    and "args = \<lparr>arg_filename_prefix = filename_prefix, arg_colorspace = colorspace,
                  arg_compression = compression, arg_pixel_type = pixel_type,
                  arg_input_colorspace = input_colorspace\<rparr>"
  shows "save_aces_exr h w images filename_prefix colorspace compression pixel_type
           input_colorspace source path url preset =
     (case single_frame h args images of
        Inl e \<Rightarrow> (Inl e, snd (find_or_download_ocio_config h w source path url preset))
      | Inr ((success, conv_info, format_info), converted) \<Rightarrow>
          (Inr (if success then single_filepath h args else [],
                if success then conv_info @ '' -> '' @ format_info
                else ru_OSHIBKA @ '' - '' @ format_info),
           (snd (find_or_download_ocio_config h w source path url preset))
             \<lparr>exr_calls := exr_calls w @ [(single_filepath h args, converted)]\<rparr>))"
proof -
  obtain cfg w1 where r: "find_or_download_ocio_config h w source path url preset = (cfg, w1)"
    by (cases "find_or_download_ocio_config h w source path url preset")
  from find_or_download_exr_calls [of h w source path url preset] r
  have calls: "exr_calls w1 = exr_calls w" by simp
  have save: "save_aces_exr h w images filename_prefix colorspace compression pixel_type
           input_colorspace source path url preset =
      (case single_image h args images w1 of
         (Inl e, w2) \<Rightarrow> (Inl e, w2)
       | (Inr (saved_files, conversion_infos), w2) \<Rightarrow>
           (Inr (if saved_files \<noteq> [] then hd saved_files else [],
                 py_join newline conversion_infos), w2))"
    using assms(1,2) r
    by (auto simp add: save_aces_exr_def Let_def assms(3) [symmetric]
        split: prod.splits sum.splits)
  show ?thesis
  proof (cases "single_frame h args images")
    case (Inl e)
    then show ?thesis
      by (simp add: save single_image_def r)
  next
    case (Inr x)
    obtain success conv_info format_info converted where
      x: "x = ((success, conv_info, format_info), converted)"
      by (cases x) auto
    show ?thesis
      by (cases success) (simp_all add: save single_image_def Inr x r Let_def log_call_def calls)
  qed
qed

lemma local_path_empty:
  "find_or_download_ocio_config h w ''Local Path'' [] [] [] = (None, w)"
  by (simp add: find_or_download_ocio_config_def)

lemma rgba_single_frame:
  "single_frame example_host
     \<lparr>arg_filename_prefix = ''shot'', arg_colorspace = ''ACES2065-1'',
      arg_compression = ''zip'', arg_pixel_type = ''half'', arg_input_colorspace = ''sRGB''\<rparr>
     rgba_pixel = Inl (ValueError ''cannot reshape array of size 4 into shape (3)'')"
  by (simp add: single_frame_def rgba_pixel_def getitem_def convert_and_save_def
      tensor_to_numpy_def numpy_error_def astype_float32_def clip_low_def convert_colorspace_def srgb_to_linear_def
      matrix_transform_def Let_def str_nat_digit digit_char_def)

lemma grad_single_frame:
  "single_frame example_host example_args grad_pixel =
     Inl (RuntimeError
       ''Can't call numpy() on Tensor that requires grad. Use tensor.detach().numpy() instead.'')"
  by (simp add: single_frame_def grad_pixel_def getitem_def convert_and_save_def
      tensor_to_numpy_def numpy_error_def Let_def)

text \<open>
  Claim C1, as amended. \<open>save_aces_exr\<close> returns a pair of a path and a report, also when
  no file was written, for every input but three kinds, where an exception leaves it: a
  four-dimensional tensor whose first dimension is 0 (\<open>images[0]\<close> raises), a tensor
  that \<open>tensor.cpu().numpy()\<close> refuses because it requires grad or has a dtype that NumPy
  lacks, and a conversion along one of the four matrix routes when the number of samples
  of a frame is not a multiple of 3 (\<open>reshape(-1, 3)\<close> raises). Failures of the
  configuration lookup and of the writer never raise.
\<close>

theorem save_aces_exr_returns_iff:
  "(\<exists>exr_path conversion_info.
      fst (save_aces_exr h w images filename_prefix colorspace compression pixel_type
             input_colorspace source path url preset) = Inr (exr_path, conversion_info)) =
   (\<not> OIIO_AVAILABLE h \<or>
    (\<not> (length (shape images) = 4 \<and> hd (shape images) = 0) \<and>
     numpy_error images = None \<and>
     (matrix_route input_colorspace colorspace \<longrightarrow> frame_samples images mod 3 = 0)))"
proof (cases "OIIO_AVAILABLE h")
  case False
  then show ?thesis by (simp add: save_aces_exr_def)
next
  case True
  have "(\<exists>p r. x = Inr (p, r)) = (\<not> isl x)" for x :: "py_error + (string \<times> string)"
    by (cases x) auto
  with frames_returns [OF True] True show ?thesis
    by auto
qed

theorem save_aces_exr_returns_iff_witness:
  "(\<exists>exr_path conversion_info.
      fst (save_aces_exr example_host example_world example_batch ''shot'' ''ACEScg'' ''zip''
             ''half'' ''sRGB'' ''Auto'' [] [] []) = Inr (exr_path, conversion_info)) \<and>
   \<not> (\<exists>exr_path conversion_info.
      fst (save_aces_exr example_host example_world rgba_pixel ''shot'' ''ACEScg'' ''zip''
             ''half'' ''sRGB'' ''Auto'' [] [] []) = Inr (exr_path, conversion_info)) \<and>
   \<not> (\<exists>exr_path conversion_info.
      fst (save_aces_exr example_host example_world grad_pixel ''shot'' ''ACEScg'' ''zip''
             ''half'' ''sRGB'' ''Auto'' [] [] []) = Inr (exr_path, conversion_info)) \<and>
   \<not> (\<exists>exr_path conversion_info.
      fst (save_aces_exr example_host example_world bfloat16_pixel ''shot'' ''ACEScg'' ''zip''
             ''half'' ''sRGB'' ''Auto'' [] [] []) = Inr (exr_path, conversion_info))"
proof -
  have a: "OIIO_AVAILABLE example_host"
    by (simp add: example_host_def)
  have b: "frame_samples example_batch mod 3 = 0" "hd (shape example_batch) \<noteq> 0"
    "numpy_error example_batch = None"
    by (simp_all add: frame_samples_def example_batch_def numpy_error_def)
  have c: "frame_samples rgba_pixel mod 3 \<noteq> 0"
    by (simp add: frame_samples_def rgba_pixel_def)
  have d: "matrix_route ''sRGB'' ''ACEScg''"
    by (simp add: matrix_route_simps)
  have e: "numpy_error grad_pixel \<noteq> None" "numpy_error bfloat16_pixel \<noteq> None"
    by (simp_all add: numpy_error_def grad_pixel_def bfloat16_pixel_def)
  from save_aces_exr_returns_iff [of example_host example_world example_batch "''shot''"
      "''ACEScg''" "''zip''" "''half''" "''sRGB''" "''Auto''" "[]" "[]" "[]"] a b d
  have 1: "\<exists>exr_path conversion_info.
      fst (save_aces_exr example_host example_world example_batch ''shot'' ''ACEScg'' ''zip''
             ''half'' ''sRGB'' ''Auto'' [] [] []) = Inr (exr_path, conversion_info)"
    by simp
  from save_aces_exr_returns_iff [of example_host example_world rgba_pixel "''shot''"
      "''ACEScg''" "''zip''" "''half''" "''sRGB''" "''Auto''" "[]" "[]" "[]"] a c d
  have 2: "\<not> (\<exists>exr_path conversion_info.
      fst (save_aces_exr example_host example_world rgba_pixel ''shot'' ''ACEScg'' ''zip''
             ''half'' ''sRGB'' ''Auto'' [] [] []) = Inr (exr_path, conversion_info))"
    by simp
  from save_aces_exr_returns_iff [of example_host example_world grad_pixel "''shot''"
      "''ACEScg''" "''zip''" "''half''" "''sRGB''" "''Auto''" "[]" "[]" "[]"] a e
  have 3: "\<not> (\<exists>exr_path conversion_info.
      fst (save_aces_exr example_host example_world grad_pixel ''shot'' ''ACEScg'' ''zip''
             ''half'' ''sRGB'' ''Auto'' [] [] []) = Inr (exr_path, conversion_info))"
    by simp
  from save_aces_exr_returns_iff [of example_host example_world bfloat16_pixel "''shot''"
      "''ACEScg''" "''zip''" "''half''" "''sRGB''" "''Auto''" "[]" "[]" "[]"] a e
  have 4: "\<not> (\<exists>exr_path conversion_info.
      fst (save_aces_exr example_host example_world bfloat16_pixel ''shot'' ''ACEScg'' ''zip''
             ''half'' ''sRGB'' ''Auto'' [] [] []) = Inr (exr_path, conversion_info))"
    by simp
  from 1 2 3 4 show ?thesis by blast
qed

text \<open>
  Against claim C1 as stated: one RGBA pixel converted from sRGB to ACES2065-1, where the
  \<open>ValueError\<close> of \<open>reshape\<close> leaves \<open>save_aces_exr\<close>, and one pixel that requires
  grad, where the \<open>RuntimeError\<close> of \<open>numpy()\<close> does.
\<close>

theorem save_aces_exr_raises:
  "fst (save_aces_exr example_host example_world rgba_pixel ''shot'' ''ACES2065-1'' ''zip''
          ''half'' ''sRGB'' ''Auto'' [] [] []) =
     Inl (ValueError ''cannot reshape array of size 4 into shape (3)'') \<and>
   fst (save_aces_exr example_host example_world grad_pixel ''shot'' ''ACES2065-1'' ''zip''
          ''half'' ''ACES2065-1'' ''Auto'' [] [] []) =
     Inl (RuntimeError
       ''Can't call numpy() on Tensor that requires grad. Use tensor.detach().numpy() instead.'')"
proof -
  have a: "OIIO_AVAILABLE example_host"
    by (simp add: example_host_def)
  have b: "\<not> (length (shape rgba_pixel) = 4 \<and> 1 < hd (shape rgba_pixel))"
    by (simp add: rgba_pixel_def)
  have c: "\<not> (length (shape grad_pixel) = 4 \<and> 1 < hd (shape grad_pixel))"
    by (simp add: grad_pixel_def)
  have d: "example_args =
     \<lparr>arg_filename_prefix = ''shot'', arg_colorspace = ''ACES2065-1'',
      arg_compression = ''zip'', arg_pixel_type = ''half'',
      arg_input_colorspace = ''ACES2065-1''\<rparr>"
    by (simp add: example_args_def)
  note save = save_aces_exr_single [OF a b
      refl [of "\<lparr>arg_filename_prefix = ''shot'', arg_colorspace = ''ACES2065-1'',
                 arg_compression = ''zip'', arg_pixel_type = ''half'',
                 arg_input_colorspace = ''sRGB''\<rparr>"],
      of example_world "''Auto''" "[]" "[]" "[]"]
  note save_grad = save_aces_exr_single [OF a c d, of example_world "''Auto''" "[]" "[]" "[]"]
  show ?thesis
    by (simp add: save rgba_single_frame save_grad grad_single_frame)
qed

subsection \<open>The save operation: the report of a batch\<close>

lemma upt_2: "[0..<2] = [0, Suc 0]"
  by (simp add: upt_rec)

lemma replicate_4: "replicate 4 c = [c, c, c, c]"
  by (simp add: numeral_eq_Suc)

lemma fmt_05d_0: "fmt_05d 0 = ''00000''" and fmt_05d_1: "fmt_05d (Suc 0) = ''00001''"
  by (simp_all add: fmt_05d_def str_nat_digit digit_char_def replicate_4)

lemma example_batch_frame_0:
  "batch_frame example_host example_args example_batch 0 =
     Inr ((False, ru_bez_konvertatsii,
           ru_oshibka @ '' EXR: '' @ ru_oshibka_zapisi @ '' EXR '' @ ru_dannykh),
          \<lparr>shape = [1, 1, 3], data = [0.25, 0.5, 2]\<rparr>)"
  by (simp add: batch_frame_def getitem_def example_batch_def convert_and_save_def
      tensor_to_numpy_def numpy_error_def astype_float32_def clip_low_def convert_colorspace_def example_args_def
      save_exr_aces_def save_exr_aces_try_def example_host_def batch_filepath_def
      path_join_def fmt_05d_0 fmt_05d_1 Let_def)

lemma example_batch_frame_1:
  "batch_frame example_host example_args example_batch (Suc 0) =
     Inr ((True, ru_bez_konvertatsii, ''EXR ACES2065-1 (half, zip, range: [?, ?])''),
          \<lparr>shape = [1, 1, 3], data = [0, 0.125, 1]\<rparr>)"
  by (simp add: batch_frame_def getitem_def example_batch_def convert_and_save_def
      tensor_to_numpy_def numpy_error_def astype_float32_def clip_low_def convert_colorspace_def example_args_def
      save_exr_aces_def save_exr_aces_try_def example_host_def batch_filepath_def
      path_join_def fmt_05d_0 fmt_05d_1 Let_def)

text \<open>
  Claim C6. For a batch of \<open>N > 1\<close> frames whose conversions do not raise, the report is
  the join of exactly \<open>N\<close> entries, one per frame in order; the entry of a frame whose
  write failed is its frame label followed by the error mark and the writer's message;
  and the returned path is that of the first frame whose write succeeded, or the empty
  string when none did.
\<close>

theorem batch_report_per_frame:
  assumes "OIIO_AVAILABLE h"
    and "length (shape images) = 4" and "1 < hd (shape images)"
    and "args = \<lparr>arg_filename_prefix = filename_prefix, arg_colorspace = colorspace,
                  arg_compression = compression, arg_pixel_type = pixel_type,
                  arg_input_colorspace = input_colorspace\<rparr>"
    and "\<forall>k < hd (shape images). \<not> isl (batch_frame h args images k)"
  shows "\<exists>infos.
     fst (save_aces_exr h w images filename_prefix colorspace compression pixel_type
            input_colorspace source path url preset) =
       Inr (case find (frame_success h args images) [0..<hd (shape images)] of
              None \<Rightarrow> [] | Some k \<Rightarrow> batch_filepath h args k,
            py_join newline infos) \<and>
     length infos = hd (shape images) \<and>
     (\<forall>k < hd (shape images).
        (\<not> frame_success h args images k \<longrightarrow>
           (\<exists>format_info. infos ! k =
              frame_label k (hd (shape images)) @ ru_OSHIBKA @ '' - '' @ format_info)) \<and>
        (frame_success h args images k \<longrightarrow>
           (\<exists>conv_info format_info. infos ! k =
              frame_label k (hd (shape images)) @ conv_info @ '' -> '' @ format_info)))"
proof -
  let ?n = "hd (shape images)"
  let ?infos = "map (frame_entry h args images ?n) [0..<?n]"
  have entry: "(\<not> frame_success h args images k \<longrightarrow>
           (\<exists>format_info. ?infos ! k =
              frame_label k ?n @ ru_OSHIBKA @ '' - '' @ format_info)) \<and>
        (frame_success h args images k \<longrightarrow>
           (\<exists>conv_info format_info. ?infos ! k =
              frame_label k ?n @ conv_info @ '' -> '' @ format_info))" if "k < ?n" for k
  proof -
    from that assms(5) obtain ok ci fi cv where
      "batch_frame h args images k = Inr ((ok, ci, fi), cv)"
      by (cases "batch_frame h args images k") auto
    with that show ?thesis
      by (cases ok) (auto simp add: frame_entry_def frame_success_def)
  qed
  from save_aces_exr_batch [OF assms, of w source path url preset] entry
  show ?thesis
    by (intro exI [of _ ?infos]) simp
qed

theorem batch_report_per_frame_witness:
  "\<exists>infos.
     fst (save_aces_exr example_host example_world example_batch ''shot'' ''ACES2065-1''
            ''zip'' ''half'' ''ACES2065-1'' ''Local Path'' [] [] []) =
       Inr (''/out/shot_00001.exr'', py_join newline infos) \<and>
     length infos = 2 \<and>
     (\<exists>format_info. infos ! 0 = frame_label 0 2 @ ru_OSHIBKA @ '' - '' @ format_info) \<and>
     (\<exists>conv_info format_info. infos ! 1 = frame_label 1 2 @ conv_info @ '' -> '' @ format_info)"
proof -
  have n: "hd (shape example_batch) = 2" and l: "length (shape example_batch) = 4"
    by (simp_all add: example_batch_def)
  have h1: "OIIO_AVAILABLE example_host"
    by (simp add: example_host_def)
  have h3: "1 < hd (shape example_batch)"
    by (simp add: n)
  have h4: "example_args =
     \<lparr>arg_filename_prefix = ''shot'', arg_colorspace = ''ACES2065-1'',
      arg_compression = ''zip'', arg_pixel_type = ''half'',
      arg_input_colorspace = ''ACES2065-1''\<rparr>"
    by (simp add: example_args_def)
  have h5: "\<forall>k < hd (shape example_batch).
      \<not> isl (batch_frame example_host example_args example_batch k)"
  proof (intro allI impI)
    fix k
    assume "k < hd (shape example_batch)"
    then have "k = 0 \<or> k = Suc 0"
      by (auto simp add: n)
    then show "\<not> isl (batch_frame example_host example_args example_batch k)"
      using example_batch_frame_0 example_batch_frame_1 by auto
  qed
  have s0: "\<not> frame_success example_host example_args example_batch 0"
    and s1: "frame_success example_host example_args example_batch 1"
    by (simp_all add: frame_success_def example_batch_frame_0 example_batch_frame_1)
  have p1: "batch_filepath example_host example_args 1 = ''/out/shot_00001.exr''"
    by (simp add: batch_filepath_def example_host_def example_args_def path_join_def
        fmt_05d_1)
  from s0 s1 have f: "find (frame_success example_host example_args example_batch)
      [0..<hd (shape example_batch)] = Some 1"
    by (simp add: n upt_2)
  from batch_report_per_frame [OF h1 l h3 h4 h5, of example_world "''Local Path''" "[]" "[]" "[]"]
  obtain infos where
    r: "fst (save_aces_exr example_host example_world example_batch ''shot'' ''ACES2065-1''
            ''zip'' ''half'' ''ACES2065-1'' ''Local Path'' [] [] []) =
       Inr (case find (frame_success example_host example_args example_batch)
                   [0..<hd (shape example_batch)] of
              None \<Rightarrow> [] | Some k \<Rightarrow> batch_filepath example_host example_args k,
            py_join newline infos)"
    and len: "length infos = hd (shape example_batch)"
    and each: "\<forall>k < hd (shape example_batch).
        (\<not> frame_success example_host example_args example_batch k \<longrightarrow>
           (\<exists>format_info. infos ! k =
              frame_label k (hd (shape example_batch)) @ ru_OSHIBKA @ '' - '' @ format_info)) \<and>
        (frame_success example_host example_args example_batch k \<longrightarrow>
           (\<exists>conv_info format_info. infos ! k =
              frame_label k (hd (shape example_batch)) @ conv_info @ '' -> '' @ format_info))"
    by blast
  from each [rule_format, of 0] s0
  have e0: "\<exists>format_info. infos ! 0 = frame_label 0 2 @ ru_OSHIBKA @ '' - '' @ format_info"
    by (simp add: n)
  from each [rule_format, of 1] s1
  have e1: "\<exists>conv_info format_info. infos ! 1 = frame_label 1 2 @ conv_info @ '' -> '' @ format_info"
    by (simp add: n)
  from r f p1 have "fst (save_aces_exr example_host example_world example_batch ''shot''
      ''ACES2065-1'' ''zip'' ''half'' ''ACES2065-1'' ''Local Path'' [] [] []) =
       Inr (''/out/shot_00001.exr'', py_join newline infos)"
    by simp
  with len e0 e1 show ?thesis
    by (intro exI [of _ infos]) (simp add: n)
qed

subsection \<open>The save operation: a single image\<close>

lemma conv_info_head:
  assumes "convert_colorspace a input_cs output_cs = Inr (b, info)"
  shows "info \<noteq> [] \<and> hd info \<noteq> CHR ''F''"
proof (cases "input_cs = output_cs")
  case True
  with assms show ?thesis
    by (auto simp add: convert_colorspace_def ru_bez_konvertatsii_def)
next
  case ne: False
  show ?thesis
  proof (cases "(input_cs, output_cs) \<in> set supported_pairs")
    case False
    with ne assms show ?thesis
      by (auto simp add: convert_else_branch unsupported_info_def ru_bez_konvertatsii_def)
  next
    case True
    then show ?thesis
      using assms
      by (cases rule: supported_pairs_cases)
        (auto simp add: convert_colorspace_def Let_def split: sum.splits)
  qed
qed

lemma not_frame_label:
  assumes "s \<noteq> []" and "hd s \<noteq> CHR ''F''"
  shows "take 6 (s @ t) \<noteq> ''Frame ''"
  using assms by (cases s) (auto simp add: take_Cons')

lemma convert_and_save_Inr:
  assumes "convert_and_save h args t p = Inr ((success, conv_info, format_info), converted)"
  shows "\<exists>a. tensor_to_numpy h t = Inr a \<and>
           convert_colorspace a (arg_input_colorspace args) (arg_colorspace args)
             = Inr (converted, conv_info)"
proof (cases "tensor_to_numpy h t")
  case (Inl e)
  with assms show ?thesis by (simp add: convert_and_save_def)
next
  case (Inr a)
  with assms show ?thesis
    by (cases "convert_colorspace a (arg_input_colorspace args) (arg_colorspace args)")
      (auto simp add: convert_and_save_def split: prod.splits)
qed

lemma single_frame_info:
  assumes "single_frame h args images = Inr ((success, conv_info, format_info), converted)"
  shows "conv_info \<noteq> [] \<and> hd conv_info \<noteq> CHR ''F''"
proof -
  from assms obtain t where
    "convert_and_save h args t (single_filepath h args)
       = Inr ((success, conv_info, format_info), converted)"
    by (cases "if length (shape images) = 4 then getitem images 0 else Inr images")
      (simp_all add: single_frame_def)
  from convert_and_save_Inr [OF this] obtain a where
    "convert_colorspace a (arg_input_colorspace args) (arg_colorspace args)
       = Inr (converted, conv_info)"
    by blast
  then show ?thesis
    by (rule conv_info_head)
qed

lemma example_single_frame:
  "single_frame example_host example_args example_single =
     Inr ((True, ru_bez_konvertatsii, ''EXR ACES2065-1 (half, zip, range: [?, ?])''),
          \<lparr>shape = [1, 1, 3], data = [0.25, 0.5, 2]\<rparr>)"
  by (simp add: single_frame_def getitem_def example_single_def convert_and_save_def
      tensor_to_numpy_def numpy_error_def astype_float32_def clip_low_def convert_colorspace_def example_args_def
      save_exr_aces_def save_exr_aces_try_def example_host_def single_filepath_def
      path_join_def Let_def)

text \<open>
  Claim C10. Unless the input has four dimensions and a first dimension above 1, also
  when it has four dimensions and a batch of exactly one frame, a call that returns has
  made one call of the writer, for the file \<open><prefix>.exr\<close> in the output directory, and
  its report is the single entry without a frame label.
\<close>

theorem single_image_naming:
  assumes "OIIO_AVAILABLE h"
    and "\<not> (length (shape images) = 4 \<and> 1 < hd (shape images))"
    and "args = \<lparr>arg_filename_prefix = filename_prefix, arg_colorspace = colorspace,
                  arg_compression = compression, arg_pixel_type = pixel_type,
                  arg_input_colorspace = input_colorspace\<rparr>"
    and "save_aces_exr h w images filename_prefix colorspace compression pixel_type
           input_colorspace source path url preset = (Inr (exr_path, conversion_info), w')"
  shows "\<exists>success conv_info format_info converted.
      single_frame h args images = Inr ((success, conv_info, format_info), converted) \<and>
      exr_calls w' =
        exr_calls w @ [(path_join (output_dir h) (filename_prefix @ ''.exr''), converted)] \<and>
      exr_path = (if success then path_join (output_dir h) (filename_prefix @ ''.exr'') else []) \<and>
      conversion_info =
        (if success then conv_info @ '' -> '' @ format_info
         else ru_OSHIBKA @ '' - '' @ format_info) \<and>
      take 6 conversion_info \<noteq> ''Frame ''"
proof -
  note save = save_aces_exr_single [OF assms(1,2,3), of w source path url preset]
  have fp: "single_filepath h args = path_join (output_dir h) (filename_prefix @ ''.exr'')"
    by (simp add: single_filepath_def assms(3))
  show ?thesis
  proof (cases "single_frame h args images")
    case (Inl e)
    with save assms(4) show ?thesis by simp
  next
    case (Inr x)
    obtain success conv_info format_info converted where
      x: "x = ((success, conv_info, format_info), converted)"
      by (cases x) auto
    note f = Inr [unfolded x]
    note head = single_frame_info [OF f]
    have o: "ru_OSHIBKA \<noteq> [] \<and> hd ru_OSHIBKA \<noteq> CHR ''F''"
      by (simp add: ru_OSHIBKA_def)
    from save assms(4) f fp
    have res: "exr_path = (if success then path_join (output_dir h) (filename_prefix @ ''.exr'')
                           else [])"
      "conversion_info = (if success then conv_info @ '' -> '' @ format_info
                          else ru_OSHIBKA @ '' - '' @ format_info)"
      "exr_calls w' =
         exr_calls w @ [(path_join (output_dir h) (filename_prefix @ ''.exr''), converted)]"
      by auto
    from head have "take 6 (conv_info @ '' -> '' @ format_info) \<noteq> ''Frame ''"
      by (intro not_frame_label) simp_all
    moreover from o have "take 6 (ru_OSHIBKA @ '' - '' @ format_info) \<noteq> ''Frame ''"
      by (intro not_frame_label) simp_all
    ultimately have "take 6 (if success then conv_info @ '' -> '' @ format_info
                          else ru_OSHIBKA @ '' - '' @ format_info) \<noteq> ''Frame ''"
      by (cases success) (simp_all only: if_True if_False not_False_eq_True)
    with res f show ?thesis
      by blast
  qed
qed

theorem single_image_naming_witness:
  "save_aces_exr example_host example_world example_single ''shot'' ''ACES2065-1'' ''zip''
     ''half'' ''ACES2065-1'' ''Local Path'' [] [] [] =
     (Inr (''/out/shot.exr'',
           ru_bez_konvertatsii @ '' -> EXR ACES2065-1 (half, zip, range: [?, ?])''),
      example_world\<lparr>exr_calls :=
        [(''/out/shot.exr'', \<lparr>shape = [1, 1, 3], data = [0.25, 0.5, 2]\<rparr>)]\<rparr>) \<and>
   take 6 (ru_bez_konvertatsii @ '' -> EXR ACES2065-1 (half, zip, range: [?, ?])'')
     \<noteq> ''Frame ''"
proof -
  have a: "OIIO_AVAILABLE example_host"
    by (simp add: example_host_def)
  have b: "\<not> (length (shape example_single) = 4 \<and> 1 < hd (shape example_single))"
    by (simp add: example_single_def)
  have c: "example_args =
     \<lparr>arg_filename_prefix = ''shot'', arg_colorspace = ''ACES2065-1'',
      arg_compression = ''zip'', arg_pixel_type = ''half'',
      arg_input_colorspace = ''ACES2065-1''\<rparr>"
    by (simp add: example_args_def)
  have p: "single_filepath example_host example_args = ''/out/shot.exr''"
    by (simp add: single_filepath_def example_host_def example_args_def path_join_def)
  have w: "exr_calls example_world = []"
    by (simp add: example_world_def)
  have eq: "save_aces_exr example_host example_world example_single ''shot'' ''ACES2065-1''
     ''zip'' ''half'' ''ACES2065-1'' ''Local Path'' [] [] [] =
     (Inr (''/out/shot.exr'',
           ru_bez_konvertatsii @ '' -> EXR ACES2065-1 (half, zip, range: [?, ?])''),
      example_world\<lparr>exr_calls :=
        [(''/out/shot.exr'', \<lparr>shape = [1, 1, 3], data = [0.25, 0.5, 2]\<rparr>)]\<rparr>)"
    by (simp add: save_aces_exr_single [OF a b c] example_single_frame local_path_empty p w)
  from single_image_naming [OF a b c eq]
  have "take 6 (ru_bez_konvertatsii @ '' -> EXR ACES2065-1 (half, zip, range: [?, ?])'')
     \<noteq> ''Frame ''"
    by blast
  with eq show ?thesis
    by blast
qed

subsection \<open>The save operation: the sign of the samples\<close>



































end
